theory Spec2Isabelle
  imports Main
begin


section \<open>JavaScript strings\<close>

text \<open>
  A JavaScript string is a sequence of UTF-16 code units, and \<open>length\<close>, \<open>slice\<close>, \<open>trim\<close>,
  \<open>split\<close> and the regular expressions of the backend all work on code units. A string is
  therefore a list of code units, each a natural number; \<open>js\<close> turns an ASCII literal into
  such a list. Characters outside ASCII are written by their code unit
  (the ellipsis is 8230, the em dash 8212).
\<close>

type_synonym jstring = "nat list"

definition js :: "string \<Rightarrow> jstring" where
  "js s = map of_char s"

text \<open>White space as \<open>String.prototype.trim\<close> and the class \<open>\s\<close> see it.\<close>

definition isSpace :: "nat \<Rightarrow> bool" where
  "isSpace u =
     (u \<in> set [9, 10, 11, 12, 13, 32, 160, 5760, 8232, 8233, 8239, 8287, 12288, 65279]
      \<or> (8192 \<le> u \<and> u \<le> 8202))"

text \<open>The line terminators, which \<open>.\<close> does not match.\<close>

definition isLineTerminator :: "nat \<Rightarrow> bool" where
  "isLineTerminator u = (u \<in> set [10, 13, 8232, 8233])"

text \<open>The characters of \<open>\w\<close>, which decide \<open>\b\<close>.\<close>

definition isWordChar :: "nat \<Rightarrow> bool" where
  "isWordChar u =
     ((97 \<le> u \<and> u \<le> 122) \<or> (65 \<le> u \<and> u \<le> 90) \<or> (48 \<le> u \<and> u \<le> 57) \<or> u = 95)"

definition trim :: "jstring \<Rightarrow> jstring" where
  "trim s = dropWhile isSpace (rev (dropWhile isSpace (rev s)))"

text \<open>\<open>s.split(sep)\<close> and \<open>lines.join(sep)\<close> for a separator of one code unit.\<close>

fun split :: "nat \<Rightarrow> jstring \<Rightarrow> jstring list" where
  "split sep [] = [[]]"
| "split sep (u # us) =
     (if u = sep then [] # split sep us
      else (case split sep us of [] \<Rightarrow> [[u]] | l # ls \<Rightarrow> (u # l) # ls))"

fun join :: "nat \<Rightarrow> jstring list \<Rightarrow> jstring" where
  "join sep [] = []"
| "join sep [l] = l"
| "join sep (l # ls) = l @ sep # join sep ls"

text \<open>Template-literal rendering of an integer, in decimal.\<close>

fun showNat :: "nat \<Rightarrow> jstring" where
  "showNat n = (if n < 10 then [48 + n] else showNat (n div 10) @ [48 + n mod 10])"

definition showInt :: "int \<Rightarrow> jstring" where
  "showInt i = (if i < 0 then 45 # showNat (nat (- i)) else showNat (nat i))"


section \<open>Regular expressions\<close>

text \<open>
  The regular expressions of the guard use literals, character classes, \<open>.\<close>, sequence,
  alternation, greedy repetition, negative lookahead, \<open>\b\<close>, \<open>^\<close> and \<open>$\<close> (without the
  multiline flag). \<open>ms\<close> lists, for a position in the subject, every position at which a
  match of the expression can end, in the order in which a backtracking matcher tries them
  (left alternative first, longer repetition first). A position is the code unit before it
  (none at the start) and the rest of the subject. With the flag \<open>i\<close> an ASCII letter
  matches in both cases; no code unit outside ASCII canonicalises to an ASCII letter.
\<close>

datatype item = Ch char | Rng char char | SpaceCls | DigitCls

datatype rx =
    Eps
  | In "item list"
  | NotIn "item list"
  | NonSpace
  | Dot
  | Seq rx rx
  | Alt rx rx
  | Star rx
  | NotAhead rx
  | WordB
  | Bol
  | Eol

record RegExp =
  source :: rx
  ignoreCase :: bool

type_synonym mstate = "nat option \<times> jstring"

definition caseVariants :: "bool \<Rightarrow> nat \<Rightarrow> nat list" where
  "caseVariants ci u =
     (if ci \<and> 97 \<le> u \<and> u \<le> 122 then [u, u - 32]
      else if ci \<and> 65 \<le> u \<and> u \<le> 90 then [u, u + 32]
      else [u])"

fun inItem :: "nat \<Rightarrow> item \<Rightarrow> bool" where
  "inItem u (Ch c) = (u = of_char c)"
| "inItem u (Rng lo hi) = (of_char lo \<le> u \<and> u \<le> of_char hi)"
| "inItem u SpaceCls = isSpace u"
| "inItem u DigitCls = (48 \<le> u \<and> u \<le> 57)"

definition inClass :: "bool \<Rightarrow> item list \<Rightarrow> nat \<Rightarrow> bool" where
  "inClass ci items u = list_ex (\<lambda>v. list_ex (inItem v) items) (caseVariants ci u)"

definition stepChar :: "(nat \<Rightarrow> bool) \<Rightarrow> mstate \<Rightarrow> mstate list" where
  "stepChar p st = (case snd st of [] \<Rightarrow> [] | u # us \<Rightarrow> if p u then [(Some u, us)] else [])"

text \<open>Greedy repetition: an iteration that consumes nothing is dropped, so the number of
  iterations is bounded by the length of the rest.\<close>

fun starIter :: "nat \<Rightarrow> (mstate \<Rightarrow> mstate list) \<Rightarrow> mstate \<Rightarrow> mstate list" where
  "starIter 0 f st = [st]"
| "starIter (Suc n) f st =
     concat (map (starIter n f) (filter (\<lambda>st'. length (snd st') < length (snd st)) (f st)))
     @ [st]"

definition atWordBoundary :: "mstate \<Rightarrow> bool" where
  "atWordBoundary st =
     ((case fst st of None \<Rightarrow> False | Some u \<Rightarrow> isWordChar u)
      \<noteq> (case snd st of [] \<Rightarrow> False | u # _ \<Rightarrow> isWordChar u))"

primrec ms :: "bool \<Rightarrow> rx \<Rightarrow> mstate \<Rightarrow> mstate list" where
  "ms ci Eps = (\<lambda>st. [st])"
| "ms ci (In items) = stepChar (inClass ci items)"
| "ms ci (NotIn items) = stepChar (\<lambda>u. \<not> inClass ci items u)"
| "ms ci NonSpace = stepChar (\<lambda>u. \<not> isSpace u)"
| "ms ci Dot = stepChar (\<lambda>u. \<not> isLineTerminator u)"
| "ms ci (Seq a b) = (\<lambda>st. concat (map (ms ci b) (ms ci a st)))"
| "ms ci (Alt a b) = (\<lambda>st. ms ci a st @ ms ci b st)"
| "ms ci (Star a) = (\<lambda>st. starIter (length (snd st)) (ms ci a) st)"
| "ms ci (NotAhead a) = (\<lambda>st. if ms ci a st = [] then [st] else [])"
| "ms ci WordB = (\<lambda>st. if atWordBoundary st then [st] else [])"
| "ms ci Bol = (\<lambda>st. if fst st = None then [st] else [])"
| "ms ci Eol = (\<lambda>st. if snd st = [] then [st] else [])"

text \<open>\<open>re.test(s)\<close>: a match starting at some position of \<open>s\<close>.\<close>

primrec testFrom :: "bool \<Rightarrow> rx \<Rightarrow> nat option \<Rightarrow> jstring \<Rightarrow> bool" where
  "testFrom ci r prev [] = (ms ci r (prev, []) \<noteq> [])"
| "testFrom ci r prev (u # us) = (ms ci r (prev, u # us) \<noteq> [] \<or> testFrom ci r (Some u) us)"

definition test :: "RegExp \<Rightarrow> jstring \<Rightarrow> bool" where
  "test re s = testFrom (ignoreCase re) (source re) None s"

text \<open>\<open>s.match(/pre(grp)suf/)[1]\<close>: the text of the one capture group in the first match,
  leftmost start first and then in backtracking order.\<close>

definition captureAt :: "bool \<Rightarrow> rx \<Rightarrow> rx \<Rightarrow> rx \<Rightarrow> mstate \<Rightarrow> jstring list" where
  "captureAt ci pre grp suf st =
     concat (map (\<lambda>st1.
       concat (map (\<lambda>st2.
         if ms ci suf st2 = [] then []
         else [take (length (snd st1) - length (snd st2)) (snd st1)])
       (ms ci grp st1)))
     (ms ci pre st))"

primrec matchGroupFrom :: "bool \<Rightarrow> rx \<Rightarrow> rx \<Rightarrow> rx \<Rightarrow> nat option \<Rightarrow> jstring \<Rightarrow> jstring option" where
  "matchGroupFrom ci pre grp suf prev [] =
     (case captureAt ci pre grp suf (prev, []) of [] \<Rightarrow> None | c # _ \<Rightarrow> Some c)"
| "matchGroupFrom ci pre grp suf prev (u # us) =
     (case captureAt ci pre grp suf (prev, u # us) of
        [] \<Rightarrow> matchGroupFrom ci pre grp suf (Some u) us
      | c # _ \<Rightarrow> Some c)"

text \<open>\<open>s.replace(/r/g, rep)\<close>: every match, from the left and without overlap, replaced by
  \<open>rep\<close>. \<open>skip\<close> counts the code units of the current match still to be dropped.\<close>

primrec replaceFrom :: "bool \<Rightarrow> rx \<Rightarrow> jstring \<Rightarrow> nat \<Rightarrow> nat option \<Rightarrow> jstring \<Rightarrow> jstring" where
  "replaceFrom ci r rep skip prev [] =
     (if skip = 0 \<and> ms ci r (prev, []) \<noteq> [] then rep else [])"
| "replaceFrom ci r rep skip prev (u # us) =
     (if 0 < skip then replaceFrom ci r rep (skip - 1) (Some u) us
      else (case ms ci r (prev, u # us) of
              [] \<Rightarrow> u # replaceFrom ci r rep 0 (Some u) us
            | st # _ \<Rightarrow>
                (let n = length (u # us) - length (snd st)
                 in if n = 0 then rep @ u # replaceFrom ci r rep 0 (Some u) us
                    else rep @ replaceFrom ci r rep (n - 1) (Some u) us)))"

definition replaceAll :: "RegExp \<Rightarrow> jstring \<Rightarrow> jstring \<Rightarrow> jstring" where
  "replaceAll re rep s = replaceFrom (ignoreCase re) (source re) rep 0 None s"

text \<open>Shorthands for writing the expressions of the source.\<close>

definition lit :: "string \<Rightarrow> rx" where
  "lit s = foldr (\<lambda>c r. Seq (In [Ch c]) r) s Eps"

definition seqs :: "rx list \<Rightarrow> rx" where
  "seqs rs = foldr Seq rs Eps"

fun alts :: "rx list \<Rightarrow> rx" where
  "alts [] = NotAhead Eps"
| "alts [r] = r"
| "alts (r # rs) = Alt r (alts rs)"

definition Many1 :: "rx \<Rightarrow> rx" where
  "Many1 r = Seq r (Star r)"

definition Opt :: "rx \<Rightarrow> rx" where
  "Opt r = Alt r Eps"

definition Space :: rx where
  "Space = In [SpaceCls]"

definition Letters :: rx where
  "Letters = In [Rng CHR ''a'' CHR ''z'', Rng CHR ''A'' CHR ''Z'']"

definition Digit :: rx where
  "Digit = In [DigitCls]"

definition word :: "string \<Rightarrow> rx" where
  "word s = seqs [WordB, lit s, WordB]"

definition icase :: "rx \<Rightarrow> RegExp" where
  "icase r = \<lparr>source = r, ignoreCase = True\<rparr>"

definition csens :: "rx \<Rightarrow> RegExp" where
  "csens r = \<lparr>source = r, ignoreCase = False\<rparr>"


section \<open>Command guard\<close>

datatype Category = Destructive | Hanging | NetworkExfil | PrivilegeEsc | ShellInjection

record DenyRule =
  rule_id :: jstring
  category :: Category
  pattern :: RegExp
  rule_reason :: jstring

record GuardVerdict =
  allowed :: bool
  reason :: "jstring option"
  sanitised :: jstring
  rule :: "jstring option"
  promotedToBackground :: "bool option"
  suggestedReadyPattern :: "jstring option"

text \<open>The resolved settings (\<open>Required<CommandGuardSettings>\<close>).\<close>

record CommandGuardSettings =
  enabled :: bool
  blockDestructive :: bool
  blockHanging :: bool
  blockNetworkExfil :: bool
  blockPrivilegeEsc :: bool
  blockShellInjection :: bool
  customDenyPatterns :: "jstring list"
  customAllowPatterns :: "jstring list"
  aiReview :: bool

definition DEFAULT_GUARD_SETTINGS :: CommandGuardSettings where
  "DEFAULT_GUARD_SETTINGS =
     \<lparr>enabled = True, blockDestructive = True, blockHanging = True, blockNetworkExfil = True,
      blockPrivilegeEsc = True, blockShellInjection = True, customDenyPatterns = [],
      customAllowPatterns = [], aiReview = False\<rparr>"

text \<open>\<open>settings[rule.category]\<close>.\<close>

fun categoryEnabled :: "CommandGuardSettings \<Rightarrow> Category \<Rightarrow> bool" where
  "categoryEnabled s Destructive = blockDestructive s"
| "categoryEnabled s Hanging = blockHanging s"
| "categoryEnabled s NetworkExfil = blockNetworkExfil s"
| "categoryEnabled s PrivilegeEsc = blockPrivilegeEsc s"
| "categoryEnabled s ShellInjection = blockShellInjection s"

definition Octal :: rx where
  "Octal = In [Rng CHR ''0'' CHR ''7'']"

subsection \<open>The built-in deny rules, in the order of \<open>DENY_RULES\<close>\<close>

definition rule_rm_rf_root :: DenyRule where
  "rule_rm_rf_root =
     \<lparr>rule_id = js ''rm-rf-root'', category = Destructive,
      pattern = icase (seqs [WordB, lit ''rm'', Many1 Space,
        alts [seqs [lit ''-'', Star Letters, lit ''r'', Star Letters, lit ''f''],
              seqs [lit ''--force'', Many1 Space, lit ''--recursive''],
              seqs [lit ''-'', Star Letters, lit ''f'', Star Letters, lit ''r'']],
        Many1 Space,
        alts [lit ''/'', seqs [lit ''~'', Opt (lit ''/''), Space], lit ''../'']]),
      rule_reason = js ''Recursive forced delete targeting root, home, or parent directory''\<rparr>"

definition rule_rm_rf_wildcard :: DenyRule where
  "rule_rm_rf_wildcard =
     \<lparr>rule_id = js ''rm-rf-wildcard'', category = Destructive,
      pattern = icase (seqs [WordB, lit ''rm'', Many1 Space,
        alts [seqs [lit ''-'', Star Letters, lit ''r'', Star Letters, lit ''f''],
              seqs [lit ''--force'', Many1 Space, lit ''--recursive'']],
        Many1 Space, lit ''*'']),
      rule_reason = js ''Recursive forced delete with glob wildcard''\<rparr>"

definition rule_mkfs :: DenyRule where
  "rule_mkfs =
     \<lparr>rule_id = js ''mkfs'', category = Destructive,
      pattern = icase (word ''mkfs''),
      rule_reason = js ''Filesystem formatting command''\<rparr>"

definition rule_dd_of :: DenyRule where
  "rule_dd_of =
     \<lparr>rule_id = js ''dd-of'', category = Destructive,
      pattern = icase (seqs [word ''dd'', Star Dot, WordB, lit ''of=/dev/'']),
      rule_reason = js ''Low-level disk write via dd''\<rparr>"

definition rule_shred :: DenyRule where
  "rule_shred =
     \<lparr>rule_id = js ''shred'', category = Destructive,
      pattern = icase (word ''shred''),
      rule_reason = js ''File shredding command''\<rparr>"

definition rule_wipefs :: DenyRule where
  "rule_wipefs =
     \<lparr>rule_id = js ''wipefs'', category = Destructive,
      pattern = icase (word ''wipefs''),
      rule_reason = js ''Filesystem metadata wipe''\<rparr>"

definition rule_node_server_file :: DenyRule where
  "rule_node_server_file =
     \<lparr>rule_id = js ''node-server-file'', category = Hanging,
      pattern = icase (seqs [WordB, lit ''node'', Many1 Space,
        NotAhead (seqs [Star Dot, lit ''--eval'']),
        NotAhead (seqs [Star Dot, lit ''-e'', WordB]),
        Many1 NonSpace, lit ''.'', alts [lit ''js'', lit ''ts'', lit ''mjs'', lit ''cjs''], WordB]),
      rule_reason = js ''Running a Node.js file directly often starts a long-running server. Use background=true with a readyPattern if intentional.''\<rparr>"

definition rule_npm_start :: DenyRule where
  "rule_npm_start =
     \<lparr>rule_id = js ''npm-start'', category = Hanging,
      pattern = icase (seqs [WordB, lit ''npm'', Many1 Space, lit ''start'', WordB]),
      rule_reason = js ''`npm start` typically starts a long-running server. Mark the step as background=true with an appropriate readyPattern.''\<rparr>"

definition rule_npm_run_dev :: DenyRule where
  "rule_npm_run_dev =
     \<lparr>rule_id = js ''npm-run-dev'', category = Hanging,
      pattern = icase (seqs [WordB, lit ''npm'', Many1 Space, lit ''run'', Many1 Space,
        alts [lit ''dev'', lit ''serve'', lit ''watch''], WordB]),
      rule_reason = js ''Dev/serve/watch scripts are long-running. Mark the step as background=true with a readyPattern.''\<rparr>"

definition rule_yarn_start_dev :: DenyRule where
  "rule_yarn_start_dev =
     \<lparr>rule_id = js ''yarn-start-dev'', category = Hanging,
      pattern = icase (seqs [WordB, lit ''yarn'', Many1 Space,
        alts [lit ''start'', lit ''dev'', lit ''serve''], WordB]),
      rule_reason = js ''yarn start/dev/serve are long-running. Mark the step as background=true with a readyPattern.''\<rparr>"

definition rule_pnpm_start_dev :: DenyRule where
  "rule_pnpm_start_dev =
     \<lparr>rule_id = js ''pnpm-start-dev'', category = Hanging,
      pattern = icase (seqs [WordB, lit ''pnpm'', Many1 Space,
        alts [lit ''start'', lit ''dev'', lit ''serve''], WordB]),
      rule_reason = js ''pnpm start/dev/serve are long-running. Mark the step as background=true with a readyPattern.''\<rparr>"

definition rule_python_server :: DenyRule where
  "rule_python_server =
     \<lparr>rule_id = js ''python-server'', category = Hanging,
      pattern = icase (seqs [WordB, lit ''python'', Opt (In [Ch CHR ''2'', Ch CHR ''3'']), Many1 Space,
        Star Dot, WordB,
        alts [lit ''server'', lit ''app'', seqs [lit ''manage.py'', Many1 Space, lit ''runserver'']],
        WordB]),
      rule_reason = js ''Python server command detected. Mark the step as background=true if intentional.''\<rparr>"

definition rule_tail_f :: DenyRule where
  "rule_tail_f =
     \<lparr>rule_id = js ''tail-f'', category = Hanging,
      pattern = icase (seqs [WordB, lit ''tail'', Many1 Space,
        alts [seqs [lit ''-'', Star Letters, lit ''f''], lit ''--follow''], WordB]),
      rule_reason = js ''tail -f never terminates. Use `tail -n` to get last N lines instead.''\<rparr>"

definition rule_sleep_large :: DenyRule where
  "rule_sleep_large =
     \<lparr>rule_id = js ''sleep-large'', category = Hanging,
      pattern = icase (seqs [WordB, lit ''sleep'', Many1 Space,
        alts [seqs [Digit, Digit, Digit, Digit, Star Digit], lit ''infinity''], WordB]),
      rule_reason = js ''Excessive sleep duration detected''\<rparr>"

definition rule_yes_pipe :: DenyRule where
  "rule_yes_pipe =
     \<lparr>rule_id = js ''yes-pipe'', category = Hanging,
      pattern = icase (word ''yes''),
      rule_reason = js ''`yes` produces infinite output and can exhaust resources''\<rparr>"

definition rule_cat_no_file :: DenyRule where
  "rule_cat_no_file =
     \<lparr>rule_id = js ''cat-no-file'', category = Hanging,
      pattern = icase (seqs [Bol, Star Space, lit ''cat'', Star Space, Eol]),
      rule_reason = js ''Bare `cat` reads from stdin and will hang indefinitely''\<rparr>"

definition rule_curl_upload :: DenyRule where
  "rule_curl_upload =
     \<lparr>rule_id = js ''curl-upload'', category = NetworkExfil,
      pattern = icase (seqs [word ''curl'', Star Dot,
        alts [seqs [lit ''-F'', WordB], lit ''--upload-file'', seqs [lit ''-T'', WordB],
              seqs [lit ''--data'', Star Dot, lit ''@'']]]),
      rule_reason = js ''curl with file upload detected '' @ [8212] @ js '' potential data exfiltration''\<rparr>"

definition rule_nc_listen :: DenyRule where
  "rule_nc_listen =
     \<lparr>rule_id = js ''nc-listen'', category = NetworkExfil,
      pattern = icase (seqs [WordB, alts [lit ''nc'', lit ''ncat'', lit ''netcat''], WordB, Star Dot,
        alts [lit ''-l'', lit ''-e'', lit ''-c'']]),
      rule_reason = js ''Netcat with listen/exec mode '' @ [8212] @ js '' potential reverse shell''\<rparr>"

definition rule_wget_post :: DenyRule where
  "rule_wget_post =
     \<lparr>rule_id = js ''wget-post'', category = NetworkExfil,
      pattern = icase (seqs [word ''wget'', Star Dot, lit ''--post'']),
      rule_reason = js ''wget with POST data '' @ [8212] @ js '' potential data exfiltration''\<rparr>"

definition rule_scp_rsync_ext :: DenyRule where
  "rule_scp_rsync_ext =
     \<lparr>rule_id = js ''scp-rsync-ext'', category = NetworkExfil,
      pattern = icase (seqs [WordB, alts [lit ''scp'', lit ''rsync''], WordB, Star Dot, lit ''@'']),
      rule_reason = js ''Remote copy commands targeting external hosts''\<rparr>"

definition rule_sudo :: DenyRule where
  "rule_sudo =
     \<lparr>rule_id = js ''sudo'', category = PrivilegeEsc,
      pattern = icase (word ''sudo''),
      rule_reason = js ''sudo '' @ [8212] @ js '' privilege escalation not allowed in sandbox''\<rparr>"

definition rule_su_root :: DenyRule where
  "rule_su_root =
     \<lparr>rule_id = js ''su-root'', category = PrivilegeEsc,
      pattern = icase (seqs [WordB, lit ''su'', Many1 Space, alts [lit ''root'', lit ''-''], WordB]),
      rule_reason = js ''su to root '' @ [8212] @ js '' privilege escalation not allowed''\<rparr>"

definition rule_chmod_dangerous :: DenyRule where
  "rule_chmod_dangerous =
     \<lparr>rule_id = js ''chmod-dangerous'', category = PrivilegeEsc,
      pattern = icase (seqs [WordB, lit ''chmod'', Many1 Space,
        alts [seqs [Star Octal, lit ''7'', Octal, Octal],
              seqs [Star (In [Ch CHR ''a'', Ch CHR ''u'', Ch CHR ''g'', Ch CHR ''o'']), lit ''+'',
                    Star (In [Ch CHR ''r'', Ch CHR ''w'', Ch CHR ''x'', Ch CHR ''s'', Ch CHR ''t'']),
                    lit ''s'']]]),
      rule_reason = js ''Dangerous chmod (world-writable or setuid/setgid)''\<rparr>"

definition rule_chown_root :: DenyRule where
  "rule_chown_root =
     \<lparr>rule_id = js ''chown-root'', category = PrivilegeEsc,
      pattern = icase (seqs [WordB, lit ''chown'', Many1 Space, alts [lit ''root'', lit ''0''], WordB]),
      rule_reason = js ''chown to root '' @ [8212] @ js '' not allowed in sandbox''\<rparr>"

definition rule_eval_exec :: DenyRule where
  "rule_eval_exec =
     \<lparr>rule_id = js ''eval-exec'', category = ShellInjection,
      pattern = icase (seqs [WordB, lit ''eval'', Space]),
      rule_reason = js ''eval can execute arbitrary injected code''\<rparr>"

definition rule_backtick_injection :: DenyRule where
  "rule_backtick_injection =
     \<lparr>rule_id = js ''backtick-injection'', category = ShellInjection,
      pattern = csens (seqs [lit ''`'', Star (NotIn [Ch CHR ''`'']), lit ''`'']),
      rule_reason = js ''Back-tick command substitution '' @ [8212] @ js '' use $() instead or avoid injection vectors''\<rparr>"

definition rule_fork_bomb :: DenyRule where
  "rule_fork_bomb =
     \<lparr>rule_id = js ''fork-bomb'', category = ShellInjection,
      pattern = csens (seqs [lit '':()'', Star Space, lit ''{'', Star Space, lit '':|:&'', Star Space, lit ''}'']),
      rule_reason = js ''Fork bomb detected''\<rparr>"

definition rule_base64_decode_pipe :: DenyRule where
  "rule_base64_decode_pipe =
     \<lparr>rule_id = js ''base64-decode-pipe'', category = ShellInjection,
      pattern = icase (seqs [WordB, lit ''base64'', Many1 Space, alts [lit ''-d'', lit ''--decode''], WordB,
        Star Dot, lit ''|'', Star Space, alts [lit ''sh'', lit ''bash'', lit ''zsh'']]),
      rule_reason = js ''base64-decoded payload piped to shell '' @ [8212] @ js '' obfuscated code execution''\<rparr>"

definition rule_curl_pipe_shell :: DenyRule where
  "rule_curl_pipe_shell =
     \<lparr>rule_id = js ''curl-pipe-shell'', category = ShellInjection,
      pattern = icase (seqs [word ''curl'', Star (NotIn [Ch CHR ''|'']), lit ''|'', Star Space,
        alts [lit ''sh'', lit ''bash'', lit ''zsh'', lit ''source''], WordB]),
      rule_reason = js ''Piping remote content directly to shell''\<rparr>"

definition rule_wget_pipe_shell :: DenyRule where
  "rule_wget_pipe_shell =
     \<lparr>rule_id = js ''wget-pipe-shell'', category = ShellInjection,
      pattern = icase (seqs [word ''wget'', Star (NotIn [Ch CHR ''|'']), lit ''|'', Star Space,
        alts [lit ''sh'', lit ''bash'', lit ''zsh'', lit ''source''], WordB]),
      rule_reason = js ''Piping remote download directly to shell''\<rparr>"

definition DENY_RULES :: "DenyRule list" where
  "DENY_RULES =
     [rule_rm_rf_root, rule_rm_rf_wildcard, rule_mkfs, rule_dd_of,
      rule_shred, rule_wipefs, rule_node_server_file, rule_npm_start,
      rule_npm_run_dev, rule_yarn_start_dev, rule_pnpm_start_dev, rule_python_server,
      rule_tail_f, rule_sleep_large, rule_yes_pipe, rule_cat_no_file,
      rule_curl_upload, rule_nc_listen, rule_wget_post, rule_scp_rsync_ext,
      rule_sudo, rule_su_root, rule_chmod_dangerous, rule_chown_root,
      rule_eval_exec, rule_backtick_injection, rule_fork_bomb, rule_base64_decode_pipe,
      rule_curl_pipe_shell, rule_wget_pipe_shell]"

subsection \<open>Ready-pattern heuristic\<close>

definition guessReadyPattern :: "jstring \<Rightarrow> jstring" where
  "guessReadyPattern command =
     (if test (icase (word ''next'')) command then js ''ready on|started server''
      else if test (icase (Alt (word ''vite'') (seqs [lit ''vue-cli-service'', WordB]))) command
        then js ''ready in|Local:''
      else if test (icase (word ''nuxt'')) command then js ''Listening on|Nitro started''
      else if test (icase (Alt (word ''angular'') (seqs [lit ''ng'', Many1 Space, lit ''serve'']))) command
        then js ''compiled successfully|listening on''
      else if test (icase (Alt (word ''django'')
                               (seqs [lit ''manage.py'', Many1 Space, lit ''runserver'']))) command
        then js ''Starting development server''
      else if test (icase (word ''flask'')) command then js ''Running on''
      else if test (icase (word ''rails'')) command then js ''Listening on''
      else if test (icase (seqs [word ''tail'', Star Dot, lit ''-f''])) command then js ''.*''
      else js ''listening on|ready|started|running'')"

subsection \<open>Heredoc-aware sanitisation\<close>

text \<open>The opener of a quoted heredoc, \<open>/<<-?\s*['"]([^'"]+)['"]\s*$/\<close>; the result is the
  delimiter, the text of the group. The quotes are the code units 39 and 34.\<close>

definition quoteChar :: rx where
  "quoteChar = In [Ch (CHR 0x27), Ch (CHR 0x22)]"

definition heredocMatch :: "jstring \<Rightarrow> jstring option" where
  "heredocMatch line =
     matchGroupFrom False
       (seqs [lit ''<<'', Opt (lit ''-''), Star Space, quoteChar])
       (Many1 (NotIn [Ch (CHR 0x27), Ch (CHR 0x22)]))
       (seqs [quoteChar, Star Space, Eol])
       None line"

text \<open>The loop over the lines, with the flag \<open>insideQuotedHeredoc\<close> and the current
  \<open>heredocDelimiter\<close>; the result is the list of the lines kept.\<close>

fun stripHeredocLines :: "bool \<Rightarrow> jstring \<Rightarrow> jstring list \<Rightarrow> jstring list" where
  "stripHeredocLines insideQuotedHeredoc heredocDelimiter [] = []"
| "stripHeredocLines insideQuotedHeredoc heredocDelimiter (line # lines) =
     (if insideQuotedHeredoc then
        (if trim line = heredocDelimiter then stripHeredocLines False [] lines
         else stripHeredocLines True heredocDelimiter lines)
      else (case heredocMatch line of
              Some d \<Rightarrow> line # stripHeredocLines True d lines
            | None \<Rightarrow> line # stripHeredocLines False heredocDelimiter lines))"

definition stripHeredocBodies :: "jstring \<Rightarrow> jstring" where
  "stripHeredocBodies cmd = join 10 (stripHeredocLines False [] (split 10 cmd))"

text \<open>\<open>"(?:[^"\\]|\\.)*"\<close> becomes \<open>""\<close>, then \<open>'[^']*'\<close> becomes \<open>''\<close>.\<close>

definition stripQuotedStrings :: "jstring \<Rightarrow> jstring" where
  "stripQuotedStrings cmd =
     (let result =
        replaceAll
          (csens (seqs [In [Ch (CHR 0x22)],
                        Star (Alt (NotIn [Ch (CHR 0x22), Ch (CHR 0x5C)])
                                  (Seq (In [Ch (CHR 0x5C)]) Dot)),
                        In [Ch (CHR 0x22)]]))
          [34, 34] cmd
      in replaceAll
           (csens (seqs [In [Ch (CHR 0x27)], Star (NotIn [Ch (CHR 0x27)]), In [Ch (CHR 0x27)]]))
           [39, 39] result)"

subsection \<open>AI review\<close>

text \<open>
  The reply of the \<open>guard\<close> role is not computed by the backend; it is an input of the
  guard. \<open>ChatFails m\<close> is a provider error with message \<open>m\<close>, \<open>ChatUnparsed\<close> a reply that
  is not a JSON object with a key \<open>safe\<close>, and \<open>ChatParsed safe reason\<close> a reply with the
  truth value of its \<open>safe\<close> and the text of its \<open>reason\<close>.
\<close>

datatype ChatOutcome = ChatFails "jstring option" | ChatUnparsed | ChatParsed bool jstring

fun aiReviewCommand :: "ChatOutcome \<Rightarrow> bool \<times> jstring" where
  "aiReviewCommand (ChatParsed safe why) = (safe, why)"
| "aiReviewCommand ChatUnparsed =
     (False, js ''AI review response could not be parsed '' @ [8212] @ js '' blocking by default'')"
| "aiReviewCommand (ChatFails m) =
     (True, js ''AI review failed ('' @
            (case m of None \<Rightarrow> js ''unknown error''
             | Some t \<Rightarrow> if t = [] then js ''unknown error'' else t)
            @ js '') '' @ [8212] @ js '' allowing by default'')"

subsection \<open>The guard\<close>

text \<open>
  \<open>new RegExp(raw, 'i')\<close> for a pattern of the settings is the platform's: \<open>compile raw\<close> is
  \<open>None\<close> where the constructor throws, else the predicate \<open>test\<close> of the compiled
  expression.
\<close>

type_synonym compiler = "jstring \<Rightarrow> (jstring \<Rightarrow> bool) option"

definition customMatch :: "compiler \<Rightarrow> jstring \<Rightarrow> jstring \<Rightarrow> bool" where
  "customMatch compile trimmed raw =
     (case compile raw of None \<Rightarrow> False | Some re \<Rightarrow> re trimmed)"

definition textToCheck :: "Category \<Rightarrow> jstring \<Rightarrow> jstring" where
  "textToCheck cat trimmed =
     (let strippedForInjection = stripHeredocBodies trimmed
      in if cat = ShellInjection then strippedForInjection
         else if cat = Hanging then stripQuotedStrings strippedForInjection
         else trimmed)"

definition ruleFires :: "CommandGuardSettings \<Rightarrow> bool \<Rightarrow> jstring \<Rightarrow> DenyRule \<Rightarrow> bool" where
  "ruleFires settings isBackground trimmed r =
     (categoryEnabled settings (category r)
      \<and> \<not> (category r = Hanging \<and> isBackground)
      \<and> test (pattern r) (textToCheck (category r) trimmed))"

definition guardCommand ::
  "compiler \<Rightarrow> CommandGuardSettings \<Rightarrow> ChatOutcome \<Rightarrow> jstring \<Rightarrow> bool \<Rightarrow> GuardVerdict" where
  "guardCommand compile settings chat command isBackground =
     (if \<not> enabled settings then
        \<lparr>allowed = True, reason = None, sanitised = command, rule = None,
         promotedToBackground = None, suggestedReadyPattern = None\<rparr>
      else
        (let trimmed = trim command in
         case find (customMatch compile trimmed) (customAllowPatterns settings) of
           Some raw \<Rightarrow>
             \<lparr>allowed = True, reason = None, sanitised = trimmed,
              rule = Some (js ''allow:'' @ raw),
              promotedToBackground = None, suggestedReadyPattern = None\<rparr>
         | None \<Rightarrow>
        (case find (ruleFires settings isBackground trimmed) DENY_RULES of
           Some r \<Rightarrow>
             (if category r = Hanging then
                \<lparr>allowed = True,
                 reason = Some (js ''['' @ rule_id r @ js ''] Auto-promoted to background: ''
                                @ rule_reason r),
                 sanitised = trimmed, rule = Some (rule_id r),
                 promotedToBackground = Some True,
                 suggestedReadyPattern = Some (guessReadyPattern trimmed)\<rparr>
              else
                \<lparr>allowed = False,
                 reason = Some (js ''['' @ rule_id r @ js ''] '' @ rule_reason r),
                 sanitised = trimmed, rule = Some (rule_id r),
                 promotedToBackground = None, suggestedReadyPattern = None\<rparr>)
         | None \<Rightarrow>
        (case find (customMatch compile trimmed) (customDenyPatterns settings) of
           Some raw \<Rightarrow>
             \<lparr>allowed = False,
              reason = Some (js ''[custom] Blocked by custom deny pattern: '' @ raw),
              sanitised = trimmed, rule = Some (js ''custom:'' @ raw),
              promotedToBackground = None, suggestedReadyPattern = None\<rparr>
         | None \<Rightarrow>
             (if aiReview settings \<and> \<not> fst (aiReviewCommand chat) then
                \<lparr>allowed = False,
                 reason = Some (js ''[ai-review] '' @ snd (aiReviewCommand chat)),
                 sanitised = trimmed, rule = Some (js ''ai-review''),
                 promotedToBackground = None, suggestedReadyPattern = None\<rparr>
              else
                \<lparr>allowed = True, reason = None, sanitised = trimmed, rule = None,
                 promotedToBackground = None, suggestedReadyPattern = None\<rparr>)))))"


section \<open>Sandbox commands\<close>

record ExecutionResult =
  stdout :: jstring
  stderr :: jstring
  exitCode :: int

text \<open>
  \<open>DockerSandboxInstance.command\<close> starts an exec in the container and waits on its output
  stream. What the container does is an input: the sequence of events of the stream, with
  \<open>Elapsed n\<close> for \<open>n\<close> milliseconds passing without an event. The promise of the
  source settles on \<open>end\<close> or \<open>error\<close> only. The parameter \<open>timeoutMs\<close> is received and
  appears nowhere in the body, as in the source.
\<close>

datatype StreamEvent =
    StdoutChunk jstring
  | StderrChunk jstring
  | StreamEnd
  | StreamError jstring
  | Elapsed nat

datatype 'a promise = Pending | Resolved 'a | Rejected jstring

fun commandStream :: "jstring \<Rightarrow> jstring \<Rightarrow> StreamEvent list \<Rightarrow> (jstring \<times> jstring) promise" where
  "commandStream out err [] = Pending"
| "commandStream out err (StdoutChunk text # evs) = commandStream (out @ text) err evs"
| "commandStream out err (StderrChunk text # evs) = commandStream out (err @ text) evs"
| "commandStream out err (StreamEnd # evs) = Resolved (out, err)"
| "commandStream out err (StreamError e # evs) = Rejected e"
| "commandStream out err (Elapsed n # evs) = commandStream out err evs"

text \<open>\<open>inspectExitCode\<close> is \<open>inspect?.ExitCode\<close>, absent where the host reports none.\<close>

definition command ::
  "jstring \<Rightarrow> jstring option \<Rightarrow> nat option \<Rightarrow> StreamEvent list \<Rightarrow> int option
   \<Rightarrow> ExecutionResult promise" where
  "command cmd workdir timeoutMs events inspectExitCode =
     (case commandStream [] [] events of
        Pending \<Rightarrow> Pending
      | Rejected e \<Rightarrow> Rejected e
      | Resolved (out, err) \<Rightarrow>
          Resolved \<lparr>stdout = out, stderr = err,
                    exitCode = (case inspectExitCode of Some c \<Rightarrow> c | None \<Rightarrow> - 1)\<rparr>)"

text \<open>The time that has passed over a sequence of events.\<close>

fun elapsedMs :: "StreamEvent list \<Rightarrow> nat" where
  "elapsedMs [] = 0"
| "elapsedMs (Elapsed n # evs) = n + elapsedMs evs"
| "elapsedMs (_ # evs) = elapsedMs evs"


section \<open>Sandbox driver\<close>

text \<open>
  \<open>resolveSandboxOptions\<close> reads the variable \<open>OPENJULES_SANDBOX_PERSIST\<close> (absent when
  not set) and the setting \<open>execution.persistSandbox\<close>, which is undefined, a boolean, or a
  value of another type.
\<close>

datatype jsvalue = Undefined | JBool bool | JOther

definition resolvePersist :: "jstring option \<Rightarrow> jsvalue \<Rightarrow> bool" where
  "resolvePersist envPersist persistSandbox =
     (case envPersist of
        Some v \<Rightarrow> v \<noteq> js ''false'' \<and> v \<noteq> js ''0''
      | None \<Rightarrow> persistSandbox \<noteq> JBool False)"

text \<open>\<open>shouldPersistSandbox\<close>, the fallback of teardown for an instance without a recorded
  flag: the variable, or \<open>true\<close> when it is not set or empty.\<close>

definition asciiLower :: "nat \<Rightarrow> nat" where
  "asciiLower u = (if 65 \<le> u \<and> u \<le> 90 then u + 32 else u)"

definition shouldPersistSandbox :: "jstring option \<Rightarrow> bool" where
  "shouldPersistSandbox envPersist =
     (let flag = map asciiLower
                   (trim (case envPersist of None \<Rightarrow> js ''true''
                          | Some v \<Rightarrow> if v = [] then js ''true'' else v))
      in flag \<noteq> js ''false'' \<and> flag \<noteq> js ''0'' \<and> flag \<noteq> js ''no'')"

text \<open>
  The driver keeps the maps \<open>instances\<close> (here: instance id to workspace path) and
  \<open>persistByInstance\<close>. The host is the list of directories that exist and the list of
  containers that exist, by instance id. Removing a directory removes what is below it;
  a removal that fails is ignored by the source and is not modelled.
\<close>

record DockerDriver =
  instances :: "jstring \<rightharpoonup> jstring"
  persistByInstance :: "jstring \<rightharpoonup> bool"

record Host =
  directories :: "jstring list"
  containers :: "jstring list"

definition isBelow :: "jstring \<Rightarrow> jstring \<Rightarrow> bool" where
  "isBelow dir p = (p = dir \<or> take (length dir + 1) p = dir @ [47])"

definition spawn ::
  "jstring \<Rightarrow> bool \<Rightarrow> jstring \<Rightarrow> DockerDriver \<times> Host \<Rightarrow> DockerDriver \<times> Host" where
  "spawn root persist instanceId dh =
     (let workspacePath = root @ [47] @ instanceId;
          repoPath = workspacePath @ js ''/repo'';
          d = fst dh; h = snd dh
      in (d\<lparr>instances := (instances d)(instanceId \<mapsto> workspacePath),
            persistByInstance := (persistByInstance d)(instanceId \<mapsto> persist)\<rparr>,
          h\<lparr>directories := directories h @ [workspacePath, repoPath],
            containers := containers h @ [instanceId]\<rparr>))"

definition teardown ::
  "jstring option \<Rightarrow> jstring \<Rightarrow> DockerDriver \<times> Host \<Rightarrow> DockerDriver \<times> Host" where
  "teardown envPersist instanceId dh =
     (let d = fst dh; h = snd dh in
      case instances d instanceId of
        None \<Rightarrow> (d, h)
      | Some workspacePath \<Rightarrow>
          (let h1 = h\<lparr>containers := filter (\<lambda>c. c \<noteq> instanceId) (containers h)\<rparr>;
               persist = (case persistByInstance d instanceId of
                            Some p \<Rightarrow> p | None \<Rightarrow> shouldPersistSandbox envPersist);
               h2 = (if \<not> persist
                     then h1\<lparr>directories :=
                                filter (\<lambda>p. \<not> isBelow workspacePath p) (directories h1)\<rparr>
                     else h1)
           in (d\<lparr>instances := (instances d)(instanceId := None),
                 persistByInstance := (persistByInstance d)(instanceId := None)\<rparr>,
               h2)))"

text \<open>A mission's sandbox from \<open>spawn\<close> to \<open>teardown\<close>, as \<open>runMission\<close> uses the driver:
  the options are resolved at spawn.\<close>

definition sandboxLifecycle ::
  "jstring option \<Rightarrow> jsvalue \<Rightarrow> jstring \<Rightarrow> jstring \<Rightarrow> DockerDriver \<times> Host
   \<Rightarrow> DockerDriver \<times> Host" where
  "sandboxLifecycle envPersist persistSandbox root instanceId dh =
     teardown envPersist instanceId
       (spawn root (resolvePersist envPersist persistSandbox) instanceId dh)"


section \<open>Missions and steps\<close>

text \<open>The status of a step, and the status of a mission (whose \<open>FAILED\<close> is written
  \<open>MISSION_FAILED\<close> here, the name \<open>FAILED\<close> being the step's).\<close>

datatype StepStatus = PENDING | IN_PROGRESS | DONE | FAILED | BLOCKED

datatype MissionStatus =
    QUEUED | PLANNING | WAITING_PLAN_APPROVAL | EXECUTING | PAUSED | WAITING_INPUT
  | VALIDATING | WAITING_REVIEW | COMPLETED | MISSION_FAILED

text \<open>A row of \<open>mission_steps\<close>. Timestamps are milliseconds, not ISO strings.\<close>

record MissionStep =
  step_id :: nat
  missionId :: nat
  order_index :: int
  description :: jstring
  command_text :: "jstring option"
  status :: StepStatus
  result_summary :: "jstring option"
  exit_code :: "int option"
  retry_count :: "nat option"
  max_retries :: "nat option"
  retryable :: bool
  timeout_ms :: "nat option"
  duration_ms :: "int option"
  started_at :: "int option"
  finished_at :: "int option"
  stdout_tail :: "jstring option"
  stderr_tail :: "jstring option"
  background :: bool
  ready_pattern :: "jstring option"

record Mission =
  mission_id :: nat
  mission_status :: MissionStatus
  fail_reason :: "jstring option"
  latest_user_input :: "jstring option"

text \<open>
  The store, as far as the controller reads it back: the mission row, the step rows and
  the next id of the step table. The log stream, the token counters and the job row are
  written and never read by the code modelled here, and are left out; store operations are
  taken to succeed.
\<close>

record Store =
  mission :: Mission
  steps :: "MissionStep list"
  nextStepId :: nat

definition patchStep :: "nat \<Rightarrow> (MissionStep \<Rightarrow> MissionStep) \<Rightarrow> MissionStep list \<Rightarrow> MissionStep list" where
  "patchStep i f rows = map (\<lambda>r. if step_id r = i then f r else r) rows"

definition DEFAULT_STEP_TIMEOUT_MS :: nat where
  "DEFAULT_STEP_TIMEOUT_MS = 5 * 60 * 1000"

definition DEFAULT_MAX_RETRIES :: nat where
  "DEFAULT_MAX_RETRIES = 2"

definition STDOUT_TAIL_LENGTH :: nat where
  "STDOUT_TAIL_LENGTH = 5000"

definition STDERR_TAIL_LENGTH :: nat where
  "STDERR_TAIL_LENGTH = 3000"


section \<open>Re-planning\<close>

record PlanStep =
  plan_description :: jstring
  plan_command :: "jstring option"
  timeoutMs :: "nat option"
  plan_retryable :: "bool option"
  plan_background :: "bool option"
  readyPattern :: "jstring option"

definition removePendingMissionSteps :: "Store \<Rightarrow> Store" where
  "removePendingMissionSteps s =
     (let existing = filter (\<lambda>r. missionId r = mission_id (mission s) \<and> status r = PENDING)
                            (steps s)
      in s\<lparr>steps := filter (\<lambda>r. step_id r \<notin> set (map step_id existing)) (steps s)\<rparr>)"

text \<open>A string that is null or empty is falsy.\<close>

definition orNull :: "jstring option \<Rightarrow> jstring option" where
  "orNull v = (case v of None \<Rightarrow> None | Some t \<Rightarrow> if t = [] then None else Some t)"

text \<open>The row that \<open>create\<close> inserts: the columns not given take the defaults of the
  schema (\<open>retry_count\<close> 0, the others null).\<close>

definition newStepRow :: "Store \<Rightarrow> int \<Rightarrow> PlanStep \<Rightarrow> MissionStep" where
  "newStepRow s order p =
     \<lparr>step_id = nextStepId s,
      missionId = mission_id (mission s),
      order_index = order,
      description = plan_description p,
      command_text = orNull (plan_command p),
      status = PENDING,
      result_summary = None,
      exit_code = None,
      retry_count = Some 0,
      max_retries = Some (if plan_retryable p = Some True then DEFAULT_MAX_RETRIES else 0),
      retryable = (case plan_retryable p of None \<Rightarrow> False | Some b \<Rightarrow> b),
      timeout_ms = Some (case timeoutMs p of None \<Rightarrow> DEFAULT_STEP_TIMEOUT_MS | Some t \<Rightarrow> t),
      duration_ms = None,
      started_at = None,
      finished_at = None,
      stdout_tail = None,
      stderr_tail = None,
      background = (case plan_background p of None \<Rightarrow> False | Some b \<Rightarrow> b),
      ready_pattern = orNull (readyPattern p)\<rparr>"

text \<open>The loop of \<open>createStepsFromPlan\<close> from \<open>index\<close> on; the result is the store and the
  rows created.\<close>

fun createLoop :: "int \<Rightarrow> nat \<Rightarrow> PlanStep list \<Rightarrow> Store \<Rightarrow> Store \<times> MissionStep list" where
  "createLoop startOrder index [] s = (s, [])"
| "createLoop startOrder index (p # ps) s =
     (let record = newStepRow s (startOrder + int index + 1) p;
          s1 = s\<lparr>steps := steps s @ [record], nextStepId := Suc (nextStepId s)\<rparr>;
          (s2, created) = createLoop startOrder (Suc index) ps s1
      in (s2, record # created))"

text \<open>\<open>find\<close> with \<open>$sort: {order_index: -1}, $limit: 1\<close>.\<close>

definition existingMax :: "Store \<Rightarrow> MissionStep list" where
  "existingMax s =
     take 1 (rev (sort_key order_index
                    (filter (\<lambda>r. missionId r = mission_id (mission s)) (steps s))))"

definition createStepsFromPlan :: "PlanStep list \<Rightarrow> Store \<Rightarrow> Store \<times> MissionStep list" where
  "createStepsFromPlan plan s =
     (let startOrder = (case existingMax s of [] \<Rightarrow> 0 | r # _ \<Rightarrow> order_index r)
      in createLoop startOrder 0 plan s)"

text \<open>The two calls of the \<open>PLANNING\<close> stage, in their order.\<close>

definition replan :: "PlanStep list \<Rightarrow> Store \<Rightarrow> Store \<times> MissionStep list" where
  "replan plan s = createStepsFromPlan plan (removePendingMissionSteps s)"

definition loadPendingMissionSteps :: "Store \<Rightarrow> MissionStep list" where
  "loadPendingMissionSteps s =
     sort_key order_index
       (filter (\<lambda>r. missionId r = mission_id (mission s) \<and> status r = PENDING) (steps s))"


section \<open>Step executor\<close>

text \<open>
  One call of the sandbox resolves with a result or rejects with an error, whose message
  may be absent. What the sandbox does is an input of the executor: \<open>sandboxRun call k\<close> is
  the outcome of the attempt number \<open>k\<close> of \<open>call\<close>.
\<close>

datatype Attempt = Resolves ExecutionResult | Rejects "jstring option"

datatype SandboxCall =
    CommandCall jstring nat
  | BackgroundCall jstring jstring nat

text \<open>\<open>utils.retryWithBackoff\<close>, from attempt \<open>attempt\<close> with \<open>left\<close> attempts after it:
  the outcome, and the delays slept, one for each retry.\<close>

fun retryFrom :: "(nat \<Rightarrow> Attempt) \<Rightarrow> nat \<Rightarrow> nat \<Rightarrow> nat \<Rightarrow> Attempt \<times> nat list" where
  "retryFrom fn baseDelayMs attempt 0 = (fn attempt, [])"
| "retryFrom fn baseDelayMs attempt (Suc left) =
     (case fn attempt of
        Resolves r \<Rightarrow> (Resolves r, [])
      | Rejects e \<Rightarrow>
          (let (outcome, delays) = retryFrom fn baseDelayMs (Suc attempt) left
           in (outcome, baseDelayMs * 2 ^ attempt # delays)))"

definition retryWithBackoff :: "(nat \<Rightarrow> Attempt) \<Rightarrow> nat \<Rightarrow> nat \<Rightarrow> Attempt \<times> nat list" where
  "retryWithBackoff fn maxRetries baseDelayMs = retryFrom fn baseDelayMs 0 maxRetries"

record StepEnv =
  compileRegExp :: compiler
  guardSettings :: CommandGuardSettings
  guardChat :: ChatOutcome
  sandboxRun :: "SandboxCall \<Rightarrow> nat \<Rightarrow> Attempt"
  startTime :: int
  endTime :: int

record StepResult = ExecutionResult +
  durationMs :: int
  retries :: nat

text \<open>\<open>utils.truncate\<close>: the text itself up to \<open>maxLength\<close> code units, else its first
  \<open>maxLength\<close> code units followed by one ellipsis.\<close>

definition truncate_text :: "jstring \<Rightarrow> nat \<Rightarrow> jstring" where
  "truncate_text text maxLength =
     (if length text \<le> maxLength then text else take maxLength text @ [8230])"

definition rawCommandOf :: "MissionStep \<Rightarrow> jstring" where
  "rawCommandOf step =
     (case orNull (command_text step) of
        None \<Rightarrow> js ''echo '' @ [34] @ js ''no command'' @ [34]
      | Some c \<Rightarrow> c)"

definition timeoutOf :: "MissionStep \<Rightarrow> nat" where
  "timeoutOf step =
     (case timeout_ms step of
        None \<Rightarrow> DEFAULT_STEP_TIMEOUT_MS
      | Some t \<Rightarrow> if t = 0 then DEFAULT_STEP_TIMEOUT_MS else t)"

definition maxRetriesOf :: "MissionStep \<Rightarrow> nat" where
  "maxRetriesOf step =
     (if retryable step
      then (case max_retries step of
              None \<Rightarrow> DEFAULT_MAX_RETRIES
            | Some m \<Rightarrow> if m = 0 then DEFAULT_MAX_RETRIES else m)
      else 0)"

text \<open>The step after the auto-promotion of the guard, which changes the object in place
  and the row.\<close>

definition promote :: "GuardVerdict \<Rightarrow> MissionStep \<Rightarrow> MissionStep" where
  "promote verdict step =
     (if promotedToBackground verdict = Some True \<and> \<not> background step
      then step\<lparr>background := True,
                ready_pattern :=
                  Some (case orNull (suggestedReadyPattern verdict) of
                          None \<Rightarrow> js ''listening on|ready|started''
                        | Some p \<Rightarrow> p)\<rparr>
      else step)"

definition attemptExecution :: "StepEnv \<Rightarrow> MissionStep \<Rightarrow> jstring \<Rightarrow> nat \<Rightarrow> Attempt" where
  "attemptExecution env step cmd k =
     (case (if background step then orNull (ready_pattern step) else None) of
        Some p \<Rightarrow> sandboxRun env (BackgroundCall cmd p (timeoutOf step)) k
      | None \<Rightarrow> sandboxRun env (CommandCall cmd (timeoutOf step)) k)"

text \<open>The \<open>try\<close> block: the outcome of the execution and the delays the back-off slept.\<close>

definition runAttempts :: "StepEnv \<Rightarrow> MissionStep \<Rightarrow> jstring \<Rightarrow> Attempt \<times> nat list" where
  "runAttempts env step cmd =
     (if 0 < maxRetriesOf step
      then retryWithBackoff (attemptExecution env step cmd) (maxRetriesOf step) 2000
      else (attemptExecution env step cmd 0, []))"

definition lastResultOf :: "Attempt \<Rightarrow> ExecutionResult" where
  "lastResultOf a =
     (case a of
        Resolves r \<Rightarrow> r
      | Rejects m \<Rightarrow>
          \<lparr>stdout = [],
           stderr = (case orNull m of None \<Rightarrow> js ''Step execution failed'' | Some t \<Rightarrow> t),
           exitCode = - 1\<rparr>)"

definition verdictOf :: "StepEnv \<Rightarrow> MissionStep \<Rightarrow> GuardVerdict" where
  "verdictOf env step =
     guardCommand (compileRegExp env) (guardSettings env) (guardChat env)
       (rawCommandOf step) (background step)"

definition reasonText :: "GuardVerdict \<Rightarrow> jstring" where
  "reasonText verdict = (case reason verdict of None \<Rightarrow> js ''undefined'' | Some t \<Rightarrow> t)"

text \<open>The object \<open>stepPatch\<close> that is persisted after the execution, as the change it
  makes to the row. \<open>actualRetries\<close> is the variable of that name.\<close>

definition stepPatch :: "ExecutionResult \<Rightarrow> nat \<Rightarrow> int \<Rightarrow> int \<Rightarrow> MissionStep \<Rightarrow> MissionStep" where
  "stepPatch lastResult actualRetries duration now r =
     r\<lparr>status := (if exitCode lastResult = 0 then DONE else FAILED),
       exit_code := Some (exitCode lastResult),
       retry_count := Some actualRetries,
       duration_ms := Some duration,
       finished_at := Some now,
       result_summary :=
         Some (js ''exit='' @ showInt (exitCode lastResult)
               @ js '' duration='' @ showInt duration @ js ''ms''),
       stdout_tail := Some (truncate_text (stdout lastResult) STDOUT_TAIL_LENGTH),
       stderr_tail := Some (truncate_text (stderr lastResult) STDERR_TAIL_LENGTH)\<rparr>"

text \<open>The patch of a step that the guard denies.\<close>

definition blockedPatch :: "GuardVerdict \<Rightarrow> int \<Rightarrow> int \<Rightarrow> MissionStep \<Rightarrow> MissionStep" where
  "blockedPatch verdict started finished r =
     r\<lparr>status := BLOCKED,
       started_at := Some started,
       finished_at := Some finished,
       result_summary := Some (js ''Blocked by command guard: '' @ reasonText verdict)\<rparr>"

text \<open>\<open>executeStep\<close>: the step rows after the call, the step object after the call (the
  executor assigns its \<open>background\<close> and \<open>ready_pattern\<close> and nothing else), and the
  result returned.\<close>

definition executeStep ::
  "StepEnv \<Rightarrow> MissionStep list \<Rightarrow> MissionStep \<Rightarrow> MissionStep list \<times> MissionStep \<times> StepResult" where
  "executeStep env rows step =
     (let actualRetries = 0;
          verdict = verdictOf env step
      in if \<not> allowed verdict then
           (patchStep (step_id step) (blockedPatch verdict (startTime env) (endTime env)) rows,
            step,
            \<lparr>stdout = [], stderr = js ''Command blocked: '' @ reasonText verdict,
             exitCode = - 2, durationMs = endTime env - startTime env, retries = 0\<rparr>)
         else
           (let cmd = sanitised verdict;
                step1 = promote verdict step;
                rows1 = (if promotedToBackground verdict = Some True \<and> \<not> background step
                         then patchStep (step_id step)
                                (\<lambda>r. r\<lparr>background := True,
                                        ready_pattern := ready_pattern step1\<rparr>) rows
                         else rows);
                rows2 = patchStep (step_id step)
                          (\<lambda>r. r\<lparr>status := IN_PROGRESS, started_at := Some (startTime env)\<rparr>)
                          rows1;
                lastResult = lastResultOf (fst (runAttempts env step1 cmd));
                duration = endTime env - startTime env;
                rows3 = patchStep (step_id step)
                          (stepPatch lastResult actualRetries duration (endTime env)) rows2
            in (rows3, step1,
                \<lparr>stdout = stdout lastResult, stderr = stderr lastResult,
                 exitCode = exitCode lastResult, durationMs = duration,
                 retries = actualRetries\<rparr>)))"


section \<open>Mission controller: the \<open>EXECUTING\<close> stage\<close>

text \<open>
  What reaches the controller from outside during a wave is an input: before the poll of
  iteration \<open>k\<close> the user may have patched the mission (a new status, a new
  \<open>latest_user_input\<close>), and the coder role answers with a command for a step without one.
  An error of the provider or of the store, which ends the run in the outer handler, is
  not modelled.
\<close>

record UserPatch =
  newStatus :: "MissionStatus option"
  newInput :: "jstring option"

record WaveEnv =
  userPatch :: "nat \<Rightarrow> UserPatch"
  coder :: "MissionStep \<Rightarrow> jstring"
  stepEnv :: "nat \<Rightarrow> StepEnv"

definition applyUserPatch :: "UserPatch \<Rightarrow> Store \<Rightarrow> Store" where
  "applyUserPatch p s =
     s\<lparr>mission := (mission s)
         \<lparr>mission_status := (case newStatus p of None \<Rightarrow> mission_status (mission s)
                              | Some st \<Rightarrow> st),
          latest_user_input := (case newInput p of None \<Rightarrow> latest_user_input (mission s)
                                | Some t \<Rightarrow> Some t)\<rparr>\<rparr>"

text \<open>\<open>waitForMissionStatus\<close> returns the status once it is a target or terminal, and polls
  again otherwise; with no further patch from outside that is a poll without end, the
  value \<open>None\<close>.\<close>

definition waitForMissionStatus :: "Store \<Rightarrow> MissionStatus list \<Rightarrow> MissionStatus option" where
  "waitForMissionStatus s targetStatus =
     (let st = mission_status (mission s)
      in if st \<in> set targetStatus then Some st
         else if st \<in> set [COMPLETED, MISSION_FAILED] then Some st
         else None)"

definition consumeUserInput :: "Store \<Rightarrow> Store" where
  "consumeUserInput s =
     (case orNull (latest_user_input (mission s)) of
        None \<Rightarrow> s
      | Some t \<Rightarrow> s\<lparr>mission := (mission s)\<lparr>latest_user_input := None\<rparr>\<rparr>)"

definition patchMissionStatus :: "MissionStatus \<Rightarrow> jstring option \<Rightarrow> Store \<Rightarrow> Store" where
  "patchMissionStatus st failReason s =
     s\<lparr>mission := (mission s)
         \<lparr>mission_status := st,
          fail_reason := (case failReason of None \<Rightarrow> fail_reason (mission s)
                          | Some t \<Rightarrow> Some t)\<rparr>\<rparr>"

text \<open>The part of an iteration between the poll and the executor: the user input is
  consumed, and a step without a command gets the command of the coder, on the object and
  on the row.\<close>

definition prepareStep :: "WaveEnv \<Rightarrow> MissionStep \<Rightarrow> Store \<Rightarrow> MissionStep \<times> Store" where
  "prepareStep env step s1 =
     (let s2 = consumeUserInput s1
      in if orNull (command_text step) = None
         then (step\<lparr>command_text := Some (coder env step)\<rparr>,
               s2\<lparr>steps := patchStep (step_id step)
                                (\<lambda>r. r\<lparr>command_text := Some (coder env step)\<rparr>) (steps s2)\<rparr>)
         else (step, s2))"

text \<open>The \<open>for\<close> loop over \<open>pendingSteps\<close>, the step objects loaded before the loop.
  \<open>None\<close> is a wave that does not return.\<close>

fun executeSteps :: "WaveEnv \<Rightarrow> nat \<Rightarrow> MissionStep list \<Rightarrow> Store \<Rightarrow> Store option" where
  "executeSteps env index [] s = Some s"
| "executeSteps env index (step # pendingSteps) s =
     (let s1 = applyUserPatch (userPatch env index) s in
      case waitForMissionStatus s1 [EXECUTING, PLANNING, PAUSED, WAITING_INPUT] of
        None \<Rightarrow> None
      | Some latest \<Rightarrow>
          if latest \<noteq> EXECUTING then Some s1
          else
            (let (step1, s2) = prepareStep env step s1;
                 (rows', step2, result) = executeStep (stepEnv env index) (steps s2) step1;
                 s3 = s2\<lparr>steps := rows'\<rparr>
             in if exitCode result \<noteq> 0 \<and> status step2 = FAILED
                then Some (patchMissionStatus MISSION_FAILED
                             (Some (js ''Step '' @ showInt (order_index step2) @ js '' failed.''))
                             s3)
                else executeSteps env (Suc index) pendingSteps s3))"

text \<open>The \<open>EXECUTING\<close> branch of the controller loop.\<close>

definition executingStage :: "WaveEnv \<Rightarrow> Store \<Rightarrow> Store option" where
  "executingStage env s =
     (let pendingSteps = loadPendingMissionSteps s
      in if pendingSteps = [] then Some (patchMissionStatus VALIDATING None s)
         else executeSteps env 0 pendingSteps s)"


section \<open>Concrete inputs\<close>

text \<open>Inputs at which the properties below are evaluated: settings without custom
  patterns (so that no pattern is ever compiled), a sandbox that answers every call alike,
  a step as \<open>createStepsFromPlan\<close> inserts it, and a mission in \<open>EXECUTING\<close>.\<close>

definition noCustomPatterns :: compiler where
  "noCustomPatterns raw = None"

definition constantSandbox :: "Attempt \<Rightarrow> SandboxCall \<Rightarrow> nat \<Rightarrow> Attempt" where
  "constantSandbox a call k = a"

definition stepEnvWith :: "(SandboxCall \<Rightarrow> nat \<Rightarrow> Attempt) \<Rightarrow> StepEnv" where
  "stepEnvWith run =
     \<lparr>compileRegExp = noCustomPatterns, guardSettings = DEFAULT_GUARD_SETTINGS,
      guardChat = ChatUnparsed, sandboxRun = run, startTime = 1000, endTime = 1250\<rparr>"

definition pendingStep :: "nat \<Rightarrow> int \<Rightarrow> jstring \<Rightarrow> bool \<Rightarrow> MissionStep" where
  "pendingStep i order cmd retry =
     \<lparr>step_id = i, missionId = 1, order_index = order, description = js ''step'',
      command_text = Some cmd, status = PENDING, result_summary = None, exit_code = None,
      retry_count = Some 0, max_retries = Some (if retry then 2 else 0), retryable = retry,
      timeout_ms = Some 300000, duration_ms = None, started_at = None, finished_at = None,
      stdout_tail = None, stderr_tail = None, background = False, ready_pattern = None\<rparr>"

definition executingMission :: Mission where
  "executingMission =
     \<lparr>mission_id = 1, mission_status = EXECUTING, fail_reason = None,
      latest_user_input = None\<rparr>"

definition outputOf :: "nat \<Rightarrow> nat \<Rightarrow> int \<Rightarrow> Attempt" where
  "outputOf n m code = Resolves \<lparr>stdout = replicate n 97, stderr = replicate m 98, exitCode = code\<rparr>"

definition lsStep :: MissionStep where
  "lsStep = pendingStep 1 1 (js ''ls'') False"

definition longOutputEnv :: StepEnv where
  "longOutputEnv = stepEnvWith (constantSandbox (outputOf 5001 3000 0))"

definition flakySandbox :: "SandboxCall \<Rightarrow> nat \<Rightarrow> Attempt" where
  "flakySandbox call k = (if k < 2 then Rejects (Some (js ''Timeout'')) else outputOf 1 1 0)"

definition flakyEnv :: StepEnv where
  "flakyEnv = stepEnvWith flakySandbox"

definition retryStep :: MissionStep where
  "retryStep = pendingStep 1 1 (js ''ls'') True"

definition historyStore :: Store where
  "historyStore =
     \<lparr>mission = executingMission\<lparr>mission_status := PLANNING\<rparr>,
      steps = [(pendingStep 1 1 (js ''ls'') False)\<lparr>status := DONE\<rparr>,
               (pendingStep 2 2 (js ''false'') False)\<lparr>status := FAILED\<rparr>,
               pendingStep 3 3 (js ''ls'') False,
               pendingStep 4 4 (js ''ls'') False],
      nextStepId = 5\<rparr>"

definition planStep :: "jstring \<Rightarrow> PlanStep" where
  "planStep d =
     \<lparr>plan_description = d, plan_command = None, timeoutMs = None, plan_retryable = None,
      plan_background = None, readyPattern = None\<rparr>"

definition twoStepPlan :: "PlanStep list" where
  "twoStepPlan = [planStep (js ''install''), planStep (js ''test'')]"

definition emptyDriver :: DockerDriver where
  "emptyDriver = \<lparr>instances = Map.empty, persistByInstance = Map.empty\<rparr>"

definition emptyHost :: Host where
  "emptyHost = \<lparr>directories = [], containers = []\<rparr>"

definition quietUser :: "nat \<Rightarrow> UserPatch" where
  "quietUser k = \<lparr>newStatus = None, newInput = None\<rparr>"

definition exitCodeSandbox :: "SandboxCall \<Rightarrow> nat \<Rightarrow> Attempt" where
  "exitCodeSandbox call k =
     (case call of
        CommandCall cmd t \<Rightarrow> if cmd = js ''false'' then outputOf 0 0 1 else outputOf 0 0 0
      | BackgroundCall cmd p t \<Rightarrow> outputOf 0 0 0)"

definition waveEnvWith :: "jstring \<Rightarrow> WaveEnv" where
  "waveEnvWith generated =
     \<lparr>userPatch = quietUser, coder = (\<lambda>step. generated),
      stepEnv = (\<lambda>k. stepEnvWith exitCodeSandbox)\<rparr>"

definition twoStepStore :: "jstring option \<Rightarrow> Store" where
  "twoStepStore firstCommand =
     \<lparr>mission = executingMission,
      steps = [(pendingStep 11 1 [] False)\<lparr>command_text := firstCommand\<rparr>,
               pendingStep 12 2 (js ''ls'') False],
      nextStepId = 13\<rparr>"






section \<open>Evaluating the guard\<close>

lemmas rx_defs = test_def js_def seqs_def lit_def word_def icase_def csens_def Many1_def Opt_def
  Space_def Letters_def Digit_def Octal_def stepChar_def inClass_def caseVariants_def isSpace_def
  isWordChar_def isLineTerminator_def atWordBoundary_def

lemmas rule_defs = rule_rm_rf_root_def rule_rm_rf_wildcard_def rule_mkfs_def rule_dd_of_def
  rule_shred_def rule_wipefs_def rule_node_server_file_def rule_npm_start_def
  rule_npm_run_dev_def rule_yarn_start_dev_def rule_pnpm_start_dev_def rule_python_server_def
  rule_tail_f_def rule_sleep_large_def rule_yes_pipe_def rule_cat_no_file_def
  rule_curl_upload_def rule_nc_listen_def rule_wget_post_def rule_scp_rsync_ext_def
  rule_sudo_def rule_su_root_def rule_chmod_dangerous_def rule_chown_root_def
  rule_eval_exec_def rule_backtick_injection_def rule_fork_bomb_def rule_base64_decode_pipe_def
  rule_curl_pipe_shell_def rule_wget_pipe_shell_def

lemmas guard_defs = guardCommand_def DEFAULT_GUARD_SETTINGS_def DENY_RULES_def ruleFires_def
  textToCheck_def stripHeredocBodies_def stripQuotedStrings_def heredocMatch_def quoteChar_def
  replaceAll_def captureAt_def trim_def customMatch_def guessReadyPattern_def

lemma guard_ls_ai:
  "guardCommand noCustomPatterns (DEFAULT_GUARD_SETTINGS\<lparr>aiReview := b\<rparr>) chat (js ''ls'') False =
     (if b \<and> \<not> fst (aiReviewCommand chat)
      then \<lparr>allowed = False, reason = Some (js ''[ai-review] '' @ snd (aiReviewCommand chat)),
            sanitised = js ''ls'', rule = Some (js ''ai-review''),
            promotedToBackground = None, suggestedReadyPattern = None\<rparr>
      else \<lparr>allowed = True, reason = None, sanitised = js ''ls'', rule = None,
            promotedToBackground = None, suggestedReadyPattern = None\<rparr>)"
  by (simp add: guard_defs rule_defs rx_defs Let_def)

lemma guard_ls:
  "guardCommand noCustomPatterns DEFAULT_GUARD_SETTINGS chat (js ''ls'') False =
     \<lparr>allowed = True, reason = None, sanitised = js ''ls'', rule = None,
      promotedToBackground = None, suggestedReadyPattern = None\<rparr>"
  using guard_ls_ai[of False chat] by (simp add: DEFAULT_GUARD_SETTINGS_def)

lemma guard_false:
  "guardCommand noCustomPatterns DEFAULT_GUARD_SETTINGS chat (js ''false'') False =
     \<lparr>allowed = True, reason = None, sanitised = js ''false'', rule = None,
      promotedToBackground = None, suggestedReadyPattern = None\<rparr>"
  by (simp add: guard_defs rule_defs rx_defs Let_def)


lemma verdict_ls:
  "verdictOf (stepEnvWith run) (pendingStep i k (js ''ls'') b) =
     \<lparr>allowed = True, reason = None, sanitised = js ''ls'', rule = None,
      promotedToBackground = None, suggestedReadyPattern = None\<rparr>"
proof -
  have "js ''ls'' \<noteq> []" by (simp add: js_def)
  then show ?thesis
    by (simp add: verdictOf_def stepEnvWith_def pendingStep_def rawCommandOf_def orNull_def
          guard_ls)
qed

lemma verdict_lsStep:
  "verdictOf longOutputEnv lsStep =
     \<lparr>allowed = True, reason = None, sanitised = js ''ls'', rule = None,
      promotedToBackground = None, suggestedReadyPattern = None\<rparr>"
  by (simp add: longOutputEnv_def lsStep_def verdict_ls)


section \<open>Output tails\<close>

lemma truncate_text_short: "length t \<le> n \<Longrightarrow> truncate_text t n = t"
  by (simp add: truncate_text_def)

lemma truncate_text_long: "n < length t \<Longrightarrow> truncate_text t n = take n t @ [8230]"
  by (simp add: truncate_text_def)

lemma length_truncate_text: "length (truncate_text t n) \<le> Suc n"
  by (simp add: truncate_text_def)

lemma executeStep_blocked:
  assumes "\<not> allowed (verdictOf env step)"
  shows "executeStep env rows step =
           (patchStep (step_id step)
              (blockedPatch (verdictOf env step) (startTime env) (endTime env)) rows,
            step,
            \<lparr>stdout = [], stderr = js ''Command blocked: '' @ reasonText (verdictOf env step),
             exitCode = - 2, durationMs = endTime env - startTime env, retries = 0\<rparr>)"
  using assms by (simp add: executeStep_def Let_def)

lemma executeStep_allowed_rows:
  assumes "allowed (verdictOf env step)"
      and "r \<in> set (fst (executeStep env rows step))" and "step_id r = step_id step"
  shows "\<exists>r0. r = stepPatch
                  (lastResultOf (fst (runAttempts env (promote (verdictOf env step) step)
                                        (sanitised (verdictOf env step)))))
                  0 (endTime env - startTime env) (endTime env) r0"
  using assms
  by (auto simp: executeStep_def Let_def patchStep_def split: if_splits)

lemma executeStep_allowed_result:
  assumes "allowed (verdictOf env step)"
  shows "snd (snd (executeStep env rows step)) =
     (let lastResult = lastResultOf (fst (runAttempts env (promote (verdictOf env step) step)
                                            (sanitised (verdictOf env step))))
      in \<lparr>stdout = stdout lastResult, stderr = stderr lastResult,
          exitCode = exitCode lastResult, durationMs = endTime env - startTime env,
          retries = 0\<rparr>)"
  using assms by (simp add: executeStep_def Let_def)

text \<open>
  C5, as the code has it. For a step that is executed (the guard allows its command), the
  persisted \<open>stdout_tail\<close> is the output itself when the output has at most 5000 code
  units, and otherwise its first 5000 code units followed by one ellipsis; \<open>stderr_tail\<close>
  likewise with 3000. So the tails have at most 5001 and 3001 code units, and an output
  whose length is exactly the limit is persisted unchanged, without an ellipsis.
\<close>

theorem tails_truncated:
  assumes "allowed (verdictOf env step)"
      and "executeStep env rows step = (rows', step', res)"
      and "r \<in> set rows'" and "step_id r = step_id step"
  shows "\<exists>out err. stdout_tail r = Some out \<and> stderr_tail r = Some err
           \<and> length out \<le> 5001 \<and> length err \<le> 3001
           \<and> (if length (stdout res) \<le> 5000 then out = stdout res
               else out = take 5000 (stdout res) @ [8230])
           \<and> (if length (stderr res) \<le> 3000 then err = stderr res
               else err = take 3000 (stderr res) @ [8230])"
proof -
  let ?lr = "lastResultOf (fst (runAttempts env (promote (verdictOf env step) step)
                                  (sanitised (verdictOf env step))))"
  from assms(2,3) have "r \<in> set (fst (executeStep env rows step))" by simp
  from executeStep_allowed_rows[OF assms(1) this assms(4)]
  obtain r0 where r: "r = stepPatch ?lr 0 (endTime env - startTime env) (endTime env) r0"
    by blast
  from executeStep_allowed_result[OF assms(1), of rows] assms(2)
  have res: "stdout res = stdout ?lr" "stderr res = stderr ?lr" by (simp_all add: Let_def)
  show ?thesis
    using length_truncate_text[of "stdout ?lr" 5000] length_truncate_text[of "stderr ?lr" 3000]
    by (simp add: r res stepPatch_def STDOUT_TAIL_LENGTH_def STDERR_TAIL_LENGTH_def
          truncate_text_def)
qed

lemma longOutput_rows:
  "fst (executeStep longOutputEnv [lsStep] lsStep) =
     [stepPatch \<lparr>stdout = replicate 5001 97, stderr = replicate 3000 98, exitCode = 0\<rparr>
        0 250 1250 (lsStep\<lparr>status := IN_PROGRESS, started_at := Some 1000\<rparr>)]"
  unfolding executeStep_def Let_def verdict_lsStep
  by (simp add: longOutputEnv_def lsStep_def stepEnvWith_def pendingStep_def promote_def
        runAttempts_def maxRetriesOf_def attemptExecution_def constantSandbox_def outputOf_def
        lastResultOf_def patchStep_def)

theorem tails_truncated_witness:
  "allowed (verdictOf longOutputEnv lsStep)
   \<and> (\<exists>out err. stdout_tail (hd (fst (executeStep longOutputEnv [lsStep] lsStep))) = Some out
         \<and> stderr_tail (hd (fst (executeStep longOutputEnv [lsStep] lsStep))) = Some err
         \<and> length out = 5001 \<and> length err = 3000)"
proof -
  have a: "allowed (verdictOf longOutputEnv lsStep)"
    by (simp add: verdict_lsStep)
  obtain rows' step' res where e: "executeStep longOutputEnv [lsStep] lsStep = (rows', step', res)"
    by (cases "executeStep longOutputEnv [lsStep] lsStep") 
  have rows': "rows' = fst (executeStep longOutputEnv [lsStep] lsStep)" by (simp add: e)
  have m: "hd rows' \<in> set rows'" and i: "step_id (hd rows') = step_id lsStep"
    by (simp_all add: rows' longOutput_rows stepPatch_def)
  from tails_truncated[OF a e m i] a rows' show ?thesis
    by (auto simp: longOutput_rows stepPatch_def STDOUT_TAIL_LENGTH_def STDERR_TAIL_LENGTH_def
          truncate_text_def)
qed

text \<open>The claim as stated fails: an output of 5001 code units is persisted as a tail of
  5001 code units, and an error output of exactly 3000 code units is persisted as it is,
  with no ellipsis.\<close>

theorem tail_exceeds_limit:
  "map_option length (stdout_tail (hd (fst (executeStep longOutputEnv [lsStep] lsStep)))) = Some 5001
   \<and> stderr_tail (hd (fst (executeStep longOutputEnv [lsStep] lsStep))) = Some (replicate 3000 98)"
  by (simp add: longOutput_rows stepPatch_def STDOUT_TAIL_LENGTH_def STDERR_TAIL_LENGTH_def
        truncate_text_def)


section \<open>Retry counter\<close>

lemma executeStep_ids:
  "map step_id (fst (executeStep env rows step)) = map step_id rows"
  by (simp add: executeStep_def Let_def patchStep_def blockedPatch_def stepPatch_def comp_def)

lemma flaky_attempts:
  "runAttempts flakyEnv retryStep (js ''ls'') = (outputOf 1 1 0, [2000, 4000])"
  by (simp add: runAttempts_def retryWithBackoff_def maxRetriesOf_def retryStep_def
        pendingStep_def flakyEnv_def stepEnvWith_def attemptExecution_def flakySandbox_def
        DEFAULT_MAX_RETRIES_def numeral_2_eq_2)

text \<open>
  C10. Whatever the guard decides and whatever the sandbox does, the result of
  \<open>executeStep\<close> has \<open>retries = 0\<close>, and the row of the step has \<open>retry_count = 0\<close>
  afterwards: the final patch writes the variable \<open>actualRetries\<close>, which is never
  incremented, and the patch of a blocked step leaves the column at the 0 it has had since
  the row was inserted. The number of retries that \<open>retryWithBackoff\<close> performed, the
  length of the list of delays, plays no part.
\<close>

theorem retry_count_always_zero:
  assumes "\<forall>r\<in>set rows. step_id r = step_id step \<longrightarrow> retry_count r = Some 0"
  shows "retries (snd (snd (executeStep env rows step))) = 0
         \<and> (\<forall>r\<in>set (fst (executeStep env rows step)).
               step_id r = step_id step \<longrightarrow> retry_count r = Some 0)"
proof (cases "allowed (verdictOf env step)")
  case True
  have "retries (snd (snd (executeStep env rows step))) = 0"
    by (simp add: executeStep_allowed_result[OF True] Let_def)
  moreover have "retry_count r = Some 0"
    if "r \<in> set (fst (executeStep env rows step))" "step_id r = step_id step" for r
    using executeStep_allowed_rows[OF True that] by (auto simp: stepPatch_def)
  ultimately show ?thesis by blast
next
  case False
  show ?thesis
    using assms
    by (auto simp: executeStep_blocked[OF False] patchStep_def blockedPatch_def split: if_splits)
qed

theorem retry_count_always_zero_witness:
  "length (snd (runAttempts flakyEnv retryStep (js ''ls''))) = 2
   \<and> retry_count retryStep = Some 0
   \<and> retries (snd (snd (executeStep flakyEnv [retryStep] retryStep))) = 0
   \<and> retry_count (hd (fst (executeStep flakyEnv [retryStep] retryStep))) = Some 0"
proof -
  let ?rows = "fst (executeStep flakyEnv [retryStep] retryStep)"
  have h: "\<forall>r\<in>set [retryStep]. step_id r = step_id retryStep \<longrightarrow> retry_count r = Some 0"
    by (simp add: retryStep_def pendingStep_def)
  have ids: "map step_id ?rows = [step_id retryStep]"
    by (simp add: executeStep_ids)
  then have ne: "?rows \<noteq> []" by auto
  then have "hd ?rows \<in> set ?rows" by simp
  moreover have "step_id (hd ?rows) = step_id retryStep"
    using ids ne by (cases ?rows) auto
  ultimately show ?thesis
    using retry_count_always_zero[OF h, of flakyEnv] flaky_attempts
    by (simp add: retryStep_def pendingStep_def)
qed


section \<open>Re-planning keeps the history\<close>

lemma sorted_le_last: "sorted ys \<Longrightarrow> y \<in> set ys \<Longrightarrow> y \<le> last ys"
  by (induction ys) (auto split: if_splits)

lemma existingMax_cases:
  "(existingMax s = [] \<and> (\<forall>r\<in>set (steps s). missionId r \<noteq> mission_id (mission s)))
   \<or> (\<exists>m. existingMax s = [m]
          \<and> (\<forall>r\<in>set (steps s). missionId r = mission_id (mission s)
                \<longrightarrow> order_index r \<le> order_index m))"
proof -
  let ?xs = "filter (\<lambda>r. missionId r = mission_id (mission s)) (steps s)"
  let ?ys = "sort_key order_index ?xs"
  show ?thesis
  proof (cases "?xs = []")
    case True
    then show ?thesis by (auto simp: existingMax_def filter_empty_conv)
  next
    case False
    then have ne: "?ys \<noteq> []" by (metis length_0_conv length_sort)
    then have e: "existingMax s = [last ?ys]"
      unfolding existingMax_def by (cases "rev ?ys") (auto simp: hd_rev[symmetric])
    have "order_index r \<le> order_index (last ?ys)"
      if "r \<in> set (steps s)" "missionId r = mission_id (mission s)" for r
    proof -
      from that have "order_index r \<in> set (map order_index ?ys)" by auto
      then have "order_index r \<le> last (map order_index ?ys)"
        using sorted_le_last[OF sorted_sort_key] by blast
      then show ?thesis using ne by (simp add: last_map)
    qed
    with e show ?thesis by blast
  qed
qed

lemma createLoop_props:
  "createLoop startOrder index plan s = (s', created) \<Longrightarrow>
     steps s' = steps s @ created \<and> mission s' = mission s \<and> length created = length plan
     \<and> (\<forall>i<length created. order_index (created ! i) = startOrder + int index + int i + 1
            \<and> status (created ! i) = PENDING
            \<and> retry_count (created ! i) = Some 0)"
proof (induction plan arbitrary: index s s' created)
  case Nil
  then show ?case by simp
next
  case (Cons p ps)
  let ?row = "newStepRow s (startOrder + int index + 1) p"
  let ?s1 = "s\<lparr>steps := steps s @ [?row], nextStepId := Suc (nextStepId s)\<rparr>"
  obtain s2 cr where r: "createLoop startOrder (Suc index) ps ?s1 = (s2, cr)"
    by (cases "createLoop startOrder (Suc index) ps ?s1")
  with Cons.prems have eq: "s' = s2" "created = ?row # cr"
    by (simp_all add: Let_def)
  from Cons.IH[OF r] have ih: "steps s2 = steps ?s1 @ cr" "mission s2 = mission ?s1"
    "length cr = length ps"
    "\<forall>i<length cr. order_index (cr ! i) = startOrder + int (Suc index) + int i + 1
        \<and> status (cr ! i) = PENDING \<and> retry_count (cr ! i) = Some 0"
    by auto
  have "order_index (created ! i) = startOrder + int index + int i + 1
        \<and> status (created ! i) = PENDING \<and> retry_count (created ! i) = Some 0"
    if "i < length created" for i
  proof (cases i)
    case 0
    then show ?thesis by (simp add: eq newStepRow_def)
  next
    case (Suc j)
    with that eq have "j < length cr" by simp
    with ih(4) Suc show ?thesis by (simp add: eq)
  qed
  with ih eq show ?case by simp
qed

lemma removePending_keeps:
  assumes "distinct (map step_id (steps s))" and "r \<in> set (steps s)"
  shows "r \<in> set (steps (removePendingMissionSteps s))
         \<longleftrightarrow> \<not> (missionId r = mission_id (mission s) \<and> status r = PENDING)"
proof -
  have inj: "inj_on step_id (set (steps s))" using assms(1) by (simp add: distinct_map)
  have "step_id r \<in> step_id ` {x \<in> set (steps s). missionId x = mission_id (mission s) \<and> status x = PENDING}
        \<longleftrightarrow> (missionId r = mission_id (mission s) \<and> status r = PENDING)"
    using inj assms(2) by (auto simp: inj_on_def)
  then show ?thesis using assms(2) by (auto simp: removePendingMissionSteps_def Let_def)
qed

lemma removePending_subset:
  "set (steps (removePendingMissionSteps s)) \<subseteq> set (steps s)"
  by (auto simp: removePendingMissionSteps_def Let_def)

lemma removePending_mission: "mission (removePendingMissionSteps s) = mission s"
  by (simp add: removePendingMissionSteps_def Let_def)

text \<open>
  C9. Step ids are the primary key of the table. Re-planning removes exactly the \<open>PENDING\<close>
  rows of the mission: every other row, so every \<open>DONE\<close> and \<open>FAILED\<close> one, is in the table
  afterwards as it was. The rows of the new wave are appended, one for each step of the
  plan, with status \<open>PENDING\<close>; their \<open>order_index\<close> is greater than that of every row of
  the mission that was left in the table, and grows by one from each row to the next.
\<close>

theorem replan_preserves_history:
  assumes "distinct (map step_id (steps s))"
      and "replan plan s = (s', created)"
  shows "(\<forall>r\<in>set (steps s). status r \<noteq> PENDING \<longrightarrow> r \<in> set (steps s'))
         \<and> (\<forall>r\<in>set (steps s). r \<notin> set (steps s') \<longrightarrow>
               status r = PENDING \<and> missionId r = mission_id (mission s))
         \<and> steps s' = steps (removePendingMissionSteps s) @ created
         \<and> length created = length plan
         \<and> (\<forall>c\<in>set created. status c = PENDING
               \<and> (\<forall>r\<in>set (steps (removePendingMissionSteps s)).
                      missionId r = mission_id (mission s) \<longrightarrow> order_index r < order_index c))
         \<and> (\<forall>i. Suc i < length created \<longrightarrow>
               order_index (created ! Suc i) = order_index (created ! i) + 1)"
proof -
  let ?s0 = "removePendingMissionSteps s"
  let ?start = "case existingMax ?s0 of [] \<Rightarrow> 0 | r # _ \<Rightarrow> order_index r"
  from assms(2) have cl: "createLoop ?start 0 plan ?s0 = (s', created)"
    by (simp add: replan_def createStepsFromPlan_def Let_def)
  from createLoop_props[OF cl] have p: "steps s' = steps ?s0 @ created"
    "length created = length plan"
    "\<forall>i<length created. order_index (created ! i) = ?start + int i + 1
        \<and> status (created ! i) = PENDING"
    by auto
  have keep: "r \<in> set (steps s')" if "r \<in> set (steps s)" "status r \<noteq> PENDING" for r
    using removePending_keeps[OF assms(1) that(1)] that(2) p(1) by simp
  have gone: "status r = PENDING \<and> missionId r = mission_id (mission s)"
    if "r \<in> set (steps s)" "r \<notin> set (steps s')" for r
    using removePending_keeps[OF assms(1) that(1)] that(2) p(1) by auto
  have bound: "order_index r \<le> ?start"
    if "r \<in> set (steps ?s0)" "missionId r = mission_id (mission s)" for r
    using existingMax_cases[of ?s0] that by (auto simp: removePending_mission)
  have new: "status c = PENDING \<and> (\<forall>r\<in>set (steps ?s0).
                missionId r = mission_id (mission s) \<longrightarrow> order_index r < order_index c)"
    if "c \<in> set created" for c
  proof -
    from that obtain i where i: "i < length created" "c = created ! i"
      by (auto simp: in_set_conv_nth)
    with p(3) have c: "order_index c = ?start + int i + 1" "status c = PENDING" by auto
    show ?thesis using c bound by fastforce
  qed
  have step: "order_index (created ! Suc i) = order_index (created ! i) + 1"
    if "Suc i < length created" for i
    using p(3) that by (simp add: Suc_lessD)
  show ?thesis using keep gone p(1,2) new step by blast
qed

theorem replan_preserves_history_witness:
  "distinct (map step_id (steps historyStore))
   \<and> map status (steps historyStore) = [DONE, FAILED, PENDING, PENDING]
   \<and> map step_id (steps (fst (replan twoStepPlan historyStore))) = [1, 2, 5, 6]
   \<and> map status (steps (fst (replan twoStepPlan historyStore)))
       = [DONE, FAILED, PENDING, PENDING]
   \<and> map order_index (steps (fst (replan twoStepPlan historyStore))) = [1, 2, 3, 4]
   \<and> map order_index (snd (replan twoStepPlan historyStore)) = [3, 4]
   \<and> steps (fst (replan twoStepPlan historyStore))
       = steps (removePendingMissionSteps historyStore) @ snd (replan twoStepPlan historyStore)"
proof -
  have d: "distinct (map step_id (steps historyStore))"
    by (simp add: historyStore_def pendingStep_def)
  have e: "replan twoStepPlan historyStore
             = (fst (replan twoStepPlan historyStore), snd (replan twoStepPlan historyStore))"
    by simp
  have r: "steps (removePendingMissionSteps historyStore)
             = [(pendingStep 1 1 (js ''ls'') False)\<lparr>status := DONE\<rparr>,
                (pendingStep 2 2 (js ''false'') False)\<lparr>status := FAILED\<rparr>]"
    by (simp add: removePendingMissionSteps_def historyStore_def pendingStep_def
          executingMission_def Let_def)
  have m: "existingMax (removePendingMissionSteps historyStore)
             = [(pendingStep 2 2 (js ''false'') False)\<lparr>status := FAILED\<rparr>]"
    by (simp add: existingMax_def r)
       (simp add: removePendingMissionSteps_def historyStore_def pendingStep_def
          executingMission_def Let_def)
  have c: "map order_index (snd (replan twoStepPlan historyStore)) = [3, 4]"
          "map step_id (snd (replan twoStepPlan historyStore)) = [5, 6]"
          "map status (snd (replan twoStepPlan historyStore)) = [PENDING, PENDING]"
    by (simp_all add: replan_def createStepsFromPlan_def m twoStepPlan_def Let_def
          newStepRow_def pendingStep_def split_beta)
       (simp_all add: removePendingMissionSteps_def historyStore_def Let_def)
  from replan_preserves_history[OF d e]
  have "steps (fst (replan twoStepPlan historyStore))
          = steps (removePendingMissionSteps historyStore) @ snd (replan twoStepPlan historyStore)"
    by blast
  with d c r show ?thesis
    by (simp add: historyStore_def pendingStep_def)
qed


section \<open>Sandbox teardown\<close>

lemma isBelow_self: "isBelow dir dir"
  by (simp add: isBelow_def)

text \<open>
  C3, as the code has it. The flag is resolved when the sandbox is spawned: the variable
  \<open>OPENJULES_SANDBOX_PERSIST\<close>, when set, decides it (anything but \<open>false\<close> and \<open>0\<close>
  persists), and otherwise the setting, where only the value \<open>false\<close> does not persist. So
  with neither set the flag is true. After teardown the container of the instance is gone
  and its bookkeeping is forgotten, and the workspace directory is absent exactly when the
  resolved flag is false.
\<close>

theorem directory_absent_iff_not_persist:
  "resolvePersist None Undefined = True
   \<and> (resolvePersist envPersist persistSandbox \<longleftrightarrow>
        \<not> (envPersist = Some (js ''false'') \<or> envPersist = Some (js ''0'')
           \<or> (envPersist = None \<and> persistSandbox = JBool False)))
   \<and> (root @ [47] @ instanceId
         \<notin> set (directories (snd (sandboxLifecycle envPersist persistSandbox root instanceId dh)))
        \<longleftrightarrow> \<not> resolvePersist envPersist persistSandbox)
   \<and> instanceId
        \<notin> set (containers (snd (sandboxLifecycle envPersist persistSandbox root instanceId dh)))
   \<and> instances (fst (sandboxLifecycle envPersist persistSandbox root instanceId dh)) instanceId
        = None"
proof -
  have a: "resolvePersist None Undefined = True" by (simp add: resolvePersist_def)
  have b: "resolvePersist envPersist persistSandbox \<longleftrightarrow>
        \<not> (envPersist = Some (js ''false'') \<or> envPersist = Some (js ''0'')
           \<or> (envPersist = None \<and> persistSandbox = JBool False))"
    by (cases envPersist) (auto simp: resolvePersist_def)
  have c: "root @ [47] @ instanceId
         \<notin> set (directories (snd (sandboxLifecycle envPersist persistSandbox root instanceId dh)))
        \<longleftrightarrow> \<not> resolvePersist envPersist persistSandbox"
    by (simp add: sandboxLifecycle_def spawn_def teardown_def Let_def isBelow_self js_def)
  have d: "instanceId
        \<notin> set (containers (snd (sandboxLifecycle envPersist persistSandbox root instanceId dh)))"
    by (simp add: sandboxLifecycle_def spawn_def teardown_def Let_def)
  have e: "instances (fst (sandboxLifecycle envPersist persistSandbox root instanceId dh)) instanceId
        = None"
    by (simp add: sandboxLifecycle_def spawn_def teardown_def Let_def)
  from a b c d e show ?thesis by blast
qed

theorem directory_absent_iff_not_persist_witness:
  "\<not> resolvePersist None (JBool False)
   \<and> js ''/s/sandbox-7''
        \<notin> set (directories (snd (sandboxLifecycle None (JBool False) (js ''/s'') (js ''sandbox-7'')
                                    (emptyDriver, emptyHost))))
   \<and> resolvePersist (Some (js ''true'')) (JBool False)
   \<and> js ''/s/sandbox-7''
        \<in> set (directories (snd (sandboxLifecycle (Some (js ''true'')) (JBool False) (js ''/s'')
                                    (js ''sandbox-7'') (emptyDriver, emptyHost))))"
proof -
  have p: "js ''/s'' @ [47] @ js ''sandbox-7'' = js ''/s/sandbox-7''" by (simp add: js_def)
  have q: "\<not> resolvePersist None (JBool False)" "resolvePersist (Some (js ''true'')) (JBool False)"
    by (simp_all add: resolvePersist_def js_def)
  from directory_absent_iff_not_persist[of None "JBool False" "js ''/s''" "js ''sandbox-7''"
        "(emptyDriver, emptyHost)"]
       directory_absent_iff_not_persist[of "Some (js ''true'')" "JBool False" "js ''/s''"
        "js ''sandbox-7''" "(emptyDriver, emptyHost)"]
       q
  show ?thesis unfolding p by blast
qed

text \<open>The claim as stated fails: with neither the variable nor the setting set the flag is
  true, and the workspace directory and its \<open>repo\<close> are still there after teardown.\<close>

theorem default_persist_keeps_directory:
  "resolvePersist None Undefined
   \<and> directories (snd (sandboxLifecycle None Undefined (js ''/s'') (js ''sandbox-7'')
                          (emptyDriver, emptyHost)))
       = [js ''/s/sandbox-7'', js ''/s/sandbox-7/repo'']"
  by (simp add: resolvePersist_def sandboxLifecycle_def spawn_def teardown_def Let_def
        emptyDriver_def emptyHost_def js_def)


section \<open>Foreground command and its timeout\<close>

lemma commandStream_pending:
  "list_all (\<lambda>e. e \<noteq> StreamEnd \<and> (\<forall>m. e \<noteq> StreamError m)) events
   \<Longrightarrow> commandStream out err events = Pending"
  by (induction out err events rule: commandStream.induct) auto

lemma command_timeout_unused:
  "command cmd workdir t1 events code = command cmd workdir t2 events code"
  by (simp add: command_def)

text \<open>
  C7 at a concrete input: a foreground command called with \<open>timeoutMs = 1000\<close>, in a
  container whose stream delivers one chunk of output and then nothing for an hour. The
  call of the source is still pending: nothing in \<open>command\<close> reads \<open>timeoutMs\<close>, and only the
  end or an error of the stream settles its promise.
\<close>

theorem foreground_command_outlives_timeout:
  "elapsedMs [StdoutChunk (js ''started''), Elapsed 3600000] = 3600000
   \<and> command (js ''sleep 100000'') None (Some 1000)
        [StdoutChunk (js ''started''), Elapsed 3600000] None = Pending"
  by (simp add: command_def)


section \<open>Determinism of the guard\<close>





section \<open>Evaluating a wave\<close>

lemma verdictOf_plain:
  assumes "command_text step = Some c" and "c \<noteq> []" and "\<not> background step"
  shows "verdictOf (stepEnvWith run) step
         = guardCommand noCustomPatterns DEFAULT_GUARD_SETTINGS ChatUnparsed c False"
  using assms by (simp add: verdictOf_def stepEnvWith_def rawCommandOf_def orNull_def)

lemma executeStep_plain:
  assumes "command_text step = Some c" and "c \<noteq> []" and "\<not> background step"
      and "\<not> retryable step"
      and "guardCommand noCustomPatterns DEFAULT_GUARD_SETTINGS ChatUnparsed c False =
             \<lparr>allowed = True, reason = None, sanitised = c, rule = None,
              promotedToBackground = None, suggestedReadyPattern = None\<rparr>"
  shows "executeStep (stepEnvWith exitCodeSandbox) rows step =
           (patchStep (step_id step)
              (stepPatch \<lparr>stdout = [], stderr = [],
                          exitCode = (if c = js ''false'' then 1 else 0)\<rparr> 0 250 1250)
              (patchStep (step_id step)
                 (\<lambda>r. r\<lparr>status := IN_PROGRESS, started_at := Some 1000\<rparr>) rows),
            step,
            \<lparr>stdout = [], stderr = [], exitCode = (if c = js ''false'' then 1 else 0),
             durationMs = 250, retries = 0\<rparr>)"
proof -
  have v: "verdictOf (stepEnvWith exitCodeSandbox) step =
             \<lparr>allowed = True, reason = None, sanitised = c, rule = None,
              promotedToBackground = None, suggestedReadyPattern = None\<rparr>"
    using verdictOf_plain[OF assms(1,2,3)] assms(5) by simp
  show ?thesis
    unfolding executeStep_def Let_def v
    using assms(3,4)
    by (simp add: promote_def runAttempts_def maxRetriesOf_def attemptExecution_def
          exitCodeSandbox_def outputOf_def lastResultOf_def stepEnvWith_def)
qed

lemma js_facts:
  "js ''ls'' \<noteq> []" "js ''false'' \<noteq> []" "js ''rm -rf /'' \<noteq> []"
  "js ''ls'' \<noteq> js ''false''"
  by (simp_all add: js_def)

lemma pendingStep_fields:
  "step_id (pendingStep i k c b) = i" "command_text (pendingStep i k c b) = Some c"
  "status (pendingStep i k c b) = PENDING" "background (pendingStep i k c b) = False"
  "retryable (pendingStep i k c b) = b" "order_index (pendingStep i k c b) = k"
  by (simp_all add: pendingStep_def)

lemma pending_twoStepStore:
  "loadPendingMissionSteps (twoStepStore c)
     = [(pendingStep 11 1 [] False)\<lparr>command_text := c\<rparr>, pendingStep 12 2 (js ''ls'') False]"
  by (simp add: loadPendingMissionSteps_def twoStepStore_def pendingStep_def executingMission_def)

lemma executeStep_local_status:
  "status (fst (snd (executeStep env rows step))) = status step"
  by (simp add: executeStep_def Let_def promote_def)


section \<open>A blocked step\<close>


lemma prepareStep_mission:
  "prepareStep env step s1 = (step1, s2) \<Longrightarrow>
     mission_status (mission s2) = mission_status (mission s1)
     \<and> fail_reason (mission s2) = fail_reason (mission s1)
     \<and> step_id step1 = step_id step \<and> status step1 = status step
     \<and> order_index step1 = order_index step"
  by (auto simp: prepareStep_def consumeUserInput_def Let_def split: option.splits if_splits)




section \<open>A failed step\<close>

text \<open>What the wave does with a failed step, for every input: the step objects of the loop
  are the rows loaded as \<open>PENDING\<close>, the executor patches the row and leaves the object's
  \<open>status\<close> as it was, and the test \<open>step.status === 'FAILED'\<close> is made on the object. So a
  wave over pending steps never sets the \<open>fail_reason\<close> of the mission.\<close>

lemma wave_keeps_fail_reason:
  "\<forall>p\<in>set pendingSteps. status p = PENDING \<Longrightarrow>
   \<forall>k. newStatus (userPatch env k) \<noteq> Some MISSION_FAILED \<Longrightarrow>
   executeSteps env index pendingSteps s = Some s' \<Longrightarrow>
   fail_reason (mission s') = fail_reason (mission s)
   \<and> (mission_status (mission s') = MISSION_FAILED
        \<longrightarrow> mission_status (mission s) = MISSION_FAILED)"
proof (induction pendingSteps arbitrary: index s)
  case Nil
  then show ?case by simp
next
  case (Cons step rest)
  let ?s1 = "applyUserPatch (userPatch env index) s"
  have s1: "fail_reason (mission ?s1) = fail_reason (mission s)"
    "mission_status (mission ?s1) = MISSION_FAILED \<longrightarrow> mission_status (mission s) = MISSION_FAILED"
    using Cons.prems(2)[rule_format, of index]
    by (auto simp: applyUserPatch_def split: option.splits)
  show ?case
  proof (cases "waitForMissionStatus ?s1 [EXECUTING, PLANNING, PAUSED, WAITING_INPUT] = Some EXECUTING")
    case False
    with Cons.prems(3) have "s' = ?s1"
      by (auto simp: Let_def split: option.splits if_splits)
    with s1 show ?thesis by simp
  next
    case True
    obtain step1 s2 where p: "prepareStep env step ?s1 = (step1, s2)"
      by (cases "prepareStep env step ?s1")
    obtain rows' step2 result
      where e: "executeStep (stepEnv env index) (steps s2) step1 = (rows', step2, result)"
      by (cases "executeStep (stepEnv env index) (steps s2) step1")
    note pm = prepareStep_mission[OF p]
    have "status step2 = status step1"
      using executeStep_local_status[of "stepEnv env index" "steps s2" step1] e by simp
    with pm Cons.prems(1) have nf: "status step2 \<noteq> FAILED" by simp
    from Cons.prems(3) True p e nf
    have r: "executeSteps env (Suc index) rest (s2\<lparr>steps := rows'\<rparr>) = Some s'"
      by (simp add: Let_def)
    from Cons.IH[OF _ Cons.prems(2) r] Cons.prems(1)
    have "fail_reason (mission s') = fail_reason (mission (s2\<lparr>steps := rows'\<rparr>))"
      "mission_status (mission s') = MISSION_FAILED \<longrightarrow>
         mission_status (mission (s2\<lparr>steps := rows'\<rparr>)) = MISSION_FAILED"
      by simp_all
    with pm s1 show ?thesis by simp
  qed
qed

text \<open>
  C1 at a concrete input: a mission in \<open>EXECUTING\<close> with two pending steps, \<open>false\<close> (not
  retryable; the sandbox returns exit code 1) and \<open>ls\<close> (exit code 0), default guard
  settings, no action of the user. After the stage the row of step 1 is \<open>FAILED\<close> with
  exit code 1, and yet the mission is still \<open>EXECUTING\<close> with no \<open>fail_reason\<close>, and step 2
  has been executed. The claim has the mission \<open>FAILED\<close> with \<open>fail_reason\<close>
  \<open>Step 1 failed.\<close> and step 2 untouched.
\<close>

theorem failed_step_leaves_mission_executing:
  "map_option (map status \<circ> steps)
     (executingStage (waveEnvWith []) (twoStepStore (Some (js ''false'')))) = Some [FAILED, DONE]
   \<and> map_option (map exit_code \<circ> steps)
     (executingStage (waveEnvWith []) (twoStepStore (Some (js ''false'')))) = Some [Some 1, Some 0]
   \<and> map_option (mission_status \<circ> mission)
     (executingStage (waveEnvWith []) (twoStepStore (Some (js ''false'')))) = Some EXECUTING
   \<and> map_option (fail_reason \<circ> mission)
     (executingStage (waveEnvWith []) (twoStepStore (Some (js ''false'')))) = Some None"
  unfolding executingStage_def Let_def pending_twoStepStore
  by (simp add: waveEnvWith_def quietUser_def applyUserPatch_def waitForMissionStatus_def
        prepareStep_def consumeUserInput_def orNull_def js_facts Let_def twoStepStore_def
        executingMission_def pendingStep_fields executeStep_plain[where c="js ''false''"]
        executeStep_plain[where c="js ''ls''"] guard_false guard_ls patchStep_def stepPatch_def)


section \<open>Auto-promotion to background\<close>

lemma find_append_cases:
  "find P (xs @ ys) = (case find P xs of None \<Rightarrow> find P ys | Some x \<Rightarrow> Some x)"
  by (induction xs) auto

lemma DENY_RULES_by_category:
  "DENY_RULES =
     [rule_rm_rf_root, rule_rm_rf_wildcard, rule_mkfs, rule_dd_of, rule_shred, rule_wipefs]
     @ [rule_node_server_file, rule_npm_start, rule_npm_run_dev, rule_yarn_start_dev,
        rule_pnpm_start_dev, rule_python_server, rule_tail_f, rule_sleep_large, rule_yes_pipe,
        rule_cat_no_file]
     @ [rule_curl_upload, rule_nc_listen, rule_wget_post, rule_scp_rsync_ext,
        rule_sudo, rule_su_root, rule_chmod_dangerous, rule_chown_root,
        rule_eval_exec, rule_backtick_injection, rule_fork_bomb, rule_base64_decode_pipe,
        rule_curl_pipe_shell, rule_wget_pipe_shell]"
  by (simp add: DENY_RULES_def)

lemma destructive_rules:
  "\<forall>r\<in>set [rule_rm_rf_root, rule_rm_rf_wildcard, rule_mkfs, rule_dd_of, rule_shred,
             rule_wipefs]. category r = Destructive"
  by (simp add: rule_defs)

lemma hanging_rules:
  "\<forall>r\<in>set [rule_node_server_file, rule_npm_start, rule_npm_run_dev, rule_yarn_start_dev,
        rule_pnpm_start_dev, rule_python_server, rule_tail_f, rule_sleep_large, rule_yes_pipe,
        rule_cat_no_file]. category r = Hanging"
  by (simp add: rule_defs)

lemma other_rules:
  "\<forall>r\<in>set [rule_curl_upload, rule_nc_listen, rule_wget_post, rule_scp_rsync_ext,
        rule_sudo, rule_su_root, rule_chmod_dangerous, rule_chown_root,
        rule_eval_exec, rule_backtick_injection, rule_fork_bomb, rule_base64_decode_pipe,
        rule_curl_pipe_shell, rule_wget_pipe_shell].
     category r \<noteq> Hanging \<and> category r \<noteq> Destructive"
  by (simp add: rule_defs)

lemma first_hit_hanging:
  assumes "blockHanging settings"
      and "blockDestructive settings \<longrightarrow>
             (\<forall>r\<in>set DENY_RULES. category r = Destructive \<longrightarrow> \<not> test (pattern r) trimmed)"
      and "\<exists>r\<in>set DENY_RULES. category r = Hanging
             \<and> test (pattern r) (stripQuotedStrings (stripHeredocBodies trimmed))"
  shows "\<exists>r\<in>set DENY_RULES. category r = Hanging
           \<and> find (ruleFires settings False trimmed) DENY_RULES = Some r"
proof -
  let ?P = "ruleFires settings False trimmed"
  let ?D = "[rule_rm_rf_root, rule_rm_rf_wildcard, rule_mkfs, rule_dd_of, rule_shred,
             rule_wipefs]"
  let ?H = "[rule_node_server_file, rule_npm_start, rule_npm_run_dev, rule_yarn_start_dev,
        rule_pnpm_start_dev, rule_python_server, rule_tail_f, rule_sleep_large, rule_yes_pipe,
        rule_cat_no_file]"
  have d: "find ?P ?D = None"
  proof -
    have "\<not> ?P r" if "r \<in> set ?D" for r
    proof -
      from that destructive_rules have c: "category r = Destructive" by blast
      from that have "r \<in> set DENY_RULES" unfolding DENY_RULES_by_category by auto
      with assms(2) c show ?thesis by (auto simp: ruleFires_def textToCheck_def Let_def)
    qed
    then show ?thesis unfolding find_None_iff by blast
  qed
  from assms(3) obtain r where r: "r \<in> set DENY_RULES" "category r = Hanging"
    "test (pattern r) (stripQuotedStrings (stripHeredocBodies trimmed))" by blast
  have "r \<in> set ?H"
    using r(1,2) destructive_rules other_rules unfolding DENY_RULES_by_category
    by (metis Category.distinct(1) Un_iff set_append)
  moreover have "?P r"
    using r assms(1) by (simp add: ruleFires_def textToCheck_def Let_def)
  ultimately have "find ?P ?H \<noteq> None" unfolding find_None_iff by blast
  then obtain h where h: "find ?P ?H = Some h" by blast
  then have "h \<in> set ?H" unfolding find_Some_iff by (metis nth_mem)
  with hanging_rules have hc: "category h = Hanging" by blast
  have "h \<in> set DENY_RULES" using \<open>h \<in> set ?H\<close> unfolding DENY_RULES_by_category by auto
  moreover have "find ?P DENY_RULES = Some h"
    unfolding DENY_RULES_by_category find_append_cases d h by simp
  ultimately show ?thesis using hc by blast
qed

text \<open>
  C4, as the code has it. The rules are tried in the order of the list, the destructive
  ones before the hanging ones, and the first that fires decides. So take a foreground
  command (\<open>isBackground = false\<close>) with the guard enabled and \<open>blockHanging\<close> on, that no
  allow pattern matches and no enabled destructive rule matches, and that a hanging rule
  matches (on the text with heredoc bodies and quoted strings stripped): the guard does
  not block; it returns \<open>allowed = true\<close>, \<open>promotedToBackground = true\<close>, the id of a
  hanging rule, and \<open>suggestedReadyPattern = guessReadyPattern\<close> of the trimmed command.
  And with \<open>isBackground = true\<close> no verdict is a promotion, whatever the command and the
  settings.
\<close>

theorem hanging_hit_promotes:
  assumes "enabled settings" and "blockHanging settings"
      and "find (customMatch compile (trim cmd)) (customAllowPatterns settings) = None"
      and "blockDestructive settings \<longrightarrow>
             (\<forall>r\<in>set DENY_RULES. category r = Destructive \<longrightarrow> \<not> test (pattern r) (trim cmd))"
      and "\<exists>r\<in>set DENY_RULES. category r = Hanging
             \<and> test (pattern r) (stripQuotedStrings (stripHeredocBodies (trim cmd)))"
  shows "allowed (guardCommand compile settings chat cmd False)
         \<and> promotedToBackground (guardCommand compile settings chat cmd False) = Some True
         \<and> suggestedReadyPattern (guardCommand compile settings chat cmd False)
             = Some (guessReadyPattern (trim cmd))
         \<and> (\<exists>r\<in>set DENY_RULES. category r = Hanging
               \<and> rule (guardCommand compile settings chat cmd False) = Some (rule_id r))
         \<and> promotedToBackground (guardCommand compile' settings' chat' cmd' True) \<noteq> Some True"
proof -
  from first_hit_hanging[OF assms(2,4,5)] obtain r where
    r: "r \<in> set DENY_RULES" "category r = Hanging"
       "find (ruleFires settings False (trim cmd)) DENY_RULES = Some r" by blast
  have a: "allowed (guardCommand compile settings chat cmd False)
         \<and> promotedToBackground (guardCommand compile settings chat cmd False) = Some True
         \<and> suggestedReadyPattern (guardCommand compile settings chat cmd False)
             = Some (guessReadyPattern (trim cmd))
         \<and> rule (guardCommand compile settings chat cmd False) = Some (rule_id r)"
    using assms(1,3) r(2,3) by (simp add: guardCommand_def Let_def)
  have b: "promotedToBackground (guardCommand compile' settings' chat' cmd' True) \<noteq> Some True"
  proof -
    have "category h \<noteq> Hanging"
      if "find (ruleFires settings' True (trim cmd')) DENY_RULES = Some h" for h
      using that unfolding find_Some_iff by (auto simp: ruleFires_def)
    then show ?thesis
      by (auto simp: guardCommand_def Let_def split: option.splits)
  qed
  from a b r(1,2) show ?thesis by blast
qed

lemma guard_npm_start:
  "guardCommand noCustomPatterns DEFAULT_GUARD_SETTINGS chat (js ''npm start'') False =
     \<lparr>allowed = True,
      reason = Some (js ''[npm-start] Auto-promoted to background: `npm start` typically starts a long-running server. Mark the step as background=true with an appropriate readyPattern.''),
      sanitised = js ''npm start'', rule = Some (js ''npm-start''),
      promotedToBackground = Some True,
      suggestedReadyPattern = Some (js ''listening on|ready|started|running'')\<rparr>"
  by (simp add: guard_defs rule_defs rx_defs Let_def)

lemma npm_start_hypotheses:
  "\<forall>r\<in>set DENY_RULES. category r = Destructive \<longrightarrow> \<not> test (pattern r) (trim (js ''npm start''))"
  "test (pattern rule_npm_start) (stripQuotedStrings (stripHeredocBodies (trim (js ''npm start''))))"
  "guessReadyPattern (trim (js ''npm start'')) = js ''listening on|ready|started|running''"
  by (simp_all add: guard_defs rule_defs rx_defs Let_def)

theorem hanging_hit_promotes_witness:
  "enabled DEFAULT_GUARD_SETTINGS \<and> blockHanging DEFAULT_GUARD_SETTINGS
   \<and> test (pattern rule_npm_start)
        (stripQuotedStrings (stripHeredocBodies (trim (js ''npm start''))))
   \<and> allowed (guardCommand noCustomPatterns DEFAULT_GUARD_SETTINGS ChatUnparsed
                (js ''npm start'') False)
   \<and> promotedToBackground (guardCommand noCustomPatterns DEFAULT_GUARD_SETTINGS ChatUnparsed
                (js ''npm start'') False) = Some True
   \<and> suggestedReadyPattern (guardCommand noCustomPatterns DEFAULT_GUARD_SETTINGS ChatUnparsed
                (js ''npm start'') False) = Some (js ''listening on|ready|started|running'')
   \<and> promotedToBackground (guardCommand noCustomPatterns DEFAULT_GUARD_SETTINGS ChatUnparsed
                (js ''npm start'') True) \<noteq> Some True"
proof -
  have h1: "enabled DEFAULT_GUARD_SETTINGS" and h2: "blockHanging DEFAULT_GUARD_SETTINGS"
    and h3: "find (customMatch noCustomPatterns (trim (js ''npm start'')))
               (customAllowPatterns DEFAULT_GUARD_SETTINGS) = None"
    by (simp_all add: DEFAULT_GUARD_SETTINGS_def)
  have h4: "blockDestructive DEFAULT_GUARD_SETTINGS \<longrightarrow>
             (\<forall>r\<in>set DENY_RULES. category r = Destructive
                \<longrightarrow> \<not> test (pattern r) (trim (js ''npm start'')))"
    using npm_start_hypotheses(1) by blast
  have m: "rule_npm_start \<in> set DENY_RULES" "category rule_npm_start = Hanging"
    by (simp_all add: DENY_RULES_def rule_npm_start_def)
  with npm_start_hypotheses(2)
  have h5: "\<exists>r\<in>set DENY_RULES. category r = Hanging
             \<and> test (pattern r) (stripQuotedStrings (stripHeredocBodies (trim (js ''npm start''))))"
    by blast
  from hanging_hit_promotes[OF h1 h2 h3 h4 h5, of ChatUnparsed noCustomPatterns
         DEFAULT_GUARD_SETTINGS ChatUnparsed "js ''npm start''"]
       h1 h2 npm_start_hypotheses(2,3)
  show ?thesis by simp
qed

text \<open>The claim as stated fails twice. For \<open>npm start\<close> the suggested pattern is the fallback
  \<open>listening on|ready|started|running\<close>, not \<open>ready on|started server\<close>, which is the
  pattern of commands that mention \<open>next\<close>. And a command that matches a hanging rule is
  blocked all the same when a destructive rule matches it first.\<close>

theorem npm_start_gets_fallback_pattern:
  "suggestedReadyPattern
     (guardCommand noCustomPatterns DEFAULT_GUARD_SETTINGS ChatUnparsed (js ''npm start'') False)
     = Some (js ''listening on|ready|started|running'')
   \<and> js ''listening on|ready|started|running'' \<noteq> js ''ready on|started server''
   \<and> test (pattern rule_npm_start)
        (stripQuotedStrings (stripHeredocBodies (trim (js ''rm -rf / && npm start''))))
   \<and> \<not> allowed (guardCommand noCustomPatterns DEFAULT_GUARD_SETTINGS ChatUnparsed
                   (js ''rm -rf / && npm start'') False)"
proof -
  have "js ''listening on|ready|started|running'' \<noteq> js ''ready on|started server''"
    by (simp add: js_def)
  moreover have "test (pattern rule_npm_start)
        (stripQuotedStrings (stripHeredocBodies (trim (js ''rm -rf / && npm start''))))"
    by (simp add: guard_defs rule_defs rx_defs Let_def)
  moreover have "\<not> allowed (guardCommand noCustomPatterns DEFAULT_GUARD_SETTINGS ChatUnparsed
                   (js ''rm -rf / && npm start'') False)"
    by (simp add: guard_defs rule_defs rx_defs Let_def)
  ultimately show ?thesis by (simp add: guard_npm_start)
qed


section \<open>Heredoc bodies\<close>

























end
